theory Spec2Isabelle
  imports Main "HOL-Library.Sublist"
begin

section \<open>The simple authenticator (\<^verbatim>\<open>src/net/simpleAuthenticator.cpp\<close>)\<close>

text \<open>
  \<^verbatim>\<open>vmime::net::simpleAuthenticator\<close> holds two \<^verbatim>\<open>string\<close> members,
  \<^verbatim>\<open>m_username\<close> and \<^verbatim>\<open>m_password\<close>. \<^verbatim>\<open>vmime::string\<close> is a byte string, here
  \<^typ>\<open>string\<close>.
\<close>

record simpleAuthenticator =
  m_username :: string
  m_password :: string

text \<open>
  The default constructor has an empty member-initialiser list and an empty body, so both
  members are default-constructed strings, which are empty.
\<close>

definition simpleAuthenticator_default :: simpleAuthenticator where
  "simpleAuthenticator_default = \<lparr>m_username = [], m_password = []\<rparr>"

text \<open>
  \<^verbatim>\<open>simpleAuthenticator(const string& username, const string& password)
     : m_username(username), m_password(password) { }\<close>
\<close>

definition simpleAuthenticator_init :: "string \<Rightarrow> string \<Rightarrow> simpleAuthenticator" where
  "simpleAuthenticator_init username password =
     \<lparr>m_username = username, m_password = password\<rparr>"

text \<open>
  Member functions take the object and return the object they leave behind; a member
  function with a result returns it paired with that object. The \<^verbatim>\<open>const\<close> members
  assign to no field.

  \<^verbatim>\<open>const string& getUsername() const { return (m_username); }\<close>
\<close>

definition getUsername :: "simpleAuthenticator \<Rightarrow> string \<times> simpleAuthenticator" where
  "getUsername this = (m_username this, this)"

text \<open>\<^verbatim>\<open>void setUsername(const string& username) { m_username = username; }\<close>\<close>

definition setUsername :: "string \<Rightarrow> simpleAuthenticator \<Rightarrow> simpleAuthenticator" where
  "setUsername username this = this\<lparr>m_username := username\<rparr>"

text \<open>\<^verbatim>\<open>const string& getPassword() const { return (m_password); }\<close>\<close>

definition getPassword :: "simpleAuthenticator \<Rightarrow> string \<times> simpleAuthenticator" where
  "getPassword this = (m_password this, this)"

text \<open>\<^verbatim>\<open>void setPassword(const string& password) { m_password = password; }\<close>\<close>

definition setPassword :: "string \<Rightarrow> simpleAuthenticator \<Rightarrow> simpleAuthenticator" where
  "setPassword password this = this\<lparr>m_password := password\<rparr>"

text \<open>
  \<^verbatim>\<open>const authenticationInfos requestAuthInfos() const
     { return (authenticationInfos(m_username, m_password)); }\<close>

  The class \<^verbatim>\<open>authenticationInfos\<close> is declared elsewhere in the library
  (\<^verbatim>\<open>vmime/net/authenticationInfos.hpp\<close>); this member only calls its two-string
  constructor, which is the parameter \<open>authenticationInfos\<close>.
\<close>

definition requestAuthInfos ::
  "(string \<Rightarrow> string \<Rightarrow> 'infos) \<Rightarrow> simpleAuthenticator \<Rightarrow> 'infos \<times> simpleAuthenticator" where
  "requestAuthInfos authenticationInfos this =
     (authenticationInfos (m_username this) (m_password this), this)"


section \<open>Properties of the simple authenticator\<close>

text \<open>
  C8. After \<open>setUsername u\<close> the user name read back is \<open>u\<close> and the password read
  back is the one read before the call; after \<open>setPassword p\<close> the password read back is
  \<open>p\<close> and the user name read back is the one read before the call. This holds in every
  state of the authenticator and for every string.
\<close>

theorem setUsername_setPassword_frame:
  "fst (getUsername (setUsername u this)) = u
   \<and> fst (getPassword (setUsername u this)) = fst (getPassword this)
   \<and> fst (getPassword (setPassword p this)) = p
   \<and> fst (getUsername (setPassword p this)) = fst (getUsername this)"
  by (simp add: getUsername_def getPassword_def setUsername_def setPassword_def)

text \<open>
  C9. In every state, \<open>requestAuthInfos\<close> returns the value its constructor builds from
  the user name and the password that the getters return in that state; it leaves the
  authenticator as it was, and a second call right after the first returns the same value.
\<close>

theorem requestAuthInfos_current_and_pure:
  "fst (requestAuthInfos mk this) = mk (fst (getUsername this)) (fst (getPassword this))
   \<and> snd (requestAuthInfos mk this) = this
   \<and> fst (requestAuthInfos mk (snd (requestAuthInfos mk this))) = fst (requestAuthInfos mk this)"
  by (simp add: requestAuthInfos_def getUsername_def getPassword_def)

text \<open>
  C10. An authenticator constructed from the strings \<open>u\<close> and \<open>p\<close> reads back \<open>u\<close> as
  its user name and \<open>p\<close> as its password; a default-constructed one reads back the empty
  string for both.
\<close>

theorem constructors_initialise:
  "fst (getUsername (simpleAuthenticator_init u p)) = u
   \<and> fst (getPassword (simpleAuthenticator_init u p)) = p
   \<and> fst (getUsername simpleAuthenticator_default) = []
   \<and> fst (getPassword simpleAuthenticator_default) = []"
  by (simp add: getUsername_def getPassword_def simpleAuthenticator_init_def
      simpleAuthenticator_default_def)


section \<open>The MIME object model\<close>

text \<open>
  The message classes of the library (\<^verbatim>\<open>vmime::message\<close>, \<^verbatim>\<open>vmime::bodyPart\<close>,
  \<^verbatim>\<open>vmime::header\<close>, \<^verbatim>\<open>vmime::body\<close>, \<^verbatim>\<open>vmime::messageBuilder\<close>, ...) are used by the
  listings of the book chapter on parsing and building messages
  (\<^verbatim>\<open>src/unnamed/part_000\<close>), which calls \<^verbatim>\<open>msg->parse(data)\<close>, \<^verbatim>\<open>msg->generate(out)\<close>
  and \<^verbatim>\<open>mb.construct()\<close>; their implementation is elsewhere in the library. The
  definitions of this and the next two sections follow the specification's description
  of them, section by section.
\<close>

text \<open>Modelled from the spec: an octet sequence, the raw form of a message (section 3).\<close>

type_synonym octets = string

text \<open>
  Modelled from the spec: the \<open>Text\<close> value of section 3 (the class \<^verbatim>\<open>vmime::text\<close>),
  a sequence of words, each a (charset, bytes) pair.
\<close>

type_synonym text_value = "(string \<times> octets) list"

text \<open>
  Modelled from the spec: the \<open>Mailbox\<close> value of section 3 (the class
  \<^verbatim>\<open>vmime::mailbox\<close>), a display name and an addr-spec.
\<close>

record mailbox =
  mbx_name :: text_value
  mbx_email :: string

text \<open>
  Modelled from the spec: an element of an \<open>AddressList\<close> (section 3), a mailbox or a
  group, which is a phrase and a nested mailbox list.
\<close>

datatype address = Mailbox_address mailbox | Group text_value "mailbox list"

text \<open>
  Modelled from the spec: the \<open>AddressList\<close> value of section 3, an ordered sequence
  of mailboxes and groups.
\<close>

type_synonym addressList = "address list"

text \<open>
  Modelled from the spec: the \<open>DateTime\<close> value of section 3 (the class
  \<^verbatim>\<open>vmime::datetime\<close>): calendar date, clock time, UTC offset in minutes.
\<close>

record dateTime =
  dt_year :: nat
  dt_month :: nat
  dt_day :: nat
  dt_hour :: nat
  dt_minute :: nat
  dt_second :: nat
  dt_zone :: int

text \<open>
  Modelled from the spec: the \<open>MediaType\<close> value of section 3 (the class
  \<^verbatim>\<open>vmime::mediaType\<close>): top-level type, subtype and an ordered parameter map.
\<close>

record mediaType =
  mt_type :: string
  mt_subtype :: string
  mt_params :: "(string \<times> string) list"

text \<open>
  Modelled from the spec: the \<open>ContentDisposition\<close> value of section 3, a disposition
  token and a parameter map.
\<close>

record contentDisposition =
  cd_token :: string
  cd_params :: "(string \<times> string) list"

text \<open>
  Modelled from the spec: the closed set of typed field values of section 3; \<open>Raw\<close> is
  the fallback holding uninterpreted octets.
\<close>

datatype fieldValue =
    Mailbox mailbox
  | AddressList addressList
  | DateTime dateTime
  | Text text_value
  | MediaType mediaType
  | ContentDisposition contentDisposition
  | MessageId string
  | Encoding string
  | Raw octets

text \<open>Modelled from the spec: a \<open>Field\<close>, a (name, value) pair (section 3).\<close>

type_synonym field = "string \<times> fieldValue"

text \<open>
  Modelled from the spec: a \<open>Header\<close>, an ordered sequence of fields in which a name
  may occur more than once (section 3).
\<close>

type_synonym header = "field list"

text \<open>
  Modelled from the spec: a \<open>ContentHandler\<close>, an octet sequence with its declared
  transfer encoding (section 3 and the glossary); \<open>None\<close> when the header declares none.
\<close>

record contentHandler =
  ch_octets :: octets
  ch_encoding :: "string option"

text \<open>
  Modelled from the spec: \<open>Body\<close> and \<open>Part\<close> (section 3). A part owns one header
  and one body; a body is a leaf, a multipart (preamble, ordered children, epilogue) or,
  for \<^verbatim>\<open>message/rfc822\<close>, a single encapsulated part (the three part kinds of section 9).
\<close>

datatype body =
    Leaf contentHandler
  | Multipart octets "part list" octets
  | Encapsulated part
and part = Part (part_header: header) (part_body: body)


text \<open>
  Modelled from the spec: ASCII lower-casing of one octet, for the case-insensitive
  comparison of field names and parameter keys (section 3).
\<close>

definition lowerChar :: "char \<Rightarrow> char" where
  "lowerChar c =
     (case map_of (zip ''ABCDEFGHIJKLMNOPQRSTUVWXYZ'' ''abcdefghijklmnopqrstuvwxyz'') c of
        Some d \<Rightarrow> d
      | None \<Rightarrow> c)"

text \<open>Modelled from the spec: ASCII lower-casing of a name (section 3).\<close>

definition lowerStr :: "string \<Rightarrow> string" where
  "lowerStr = map lowerChar"

text \<open>
  Modelled from the spec: header lookup by name, which compares names ASCII-lowercased
  and returns the first occurrence (section 3).
\<close>

definition findField :: "string \<Rightarrow> header \<Rightarrow> fieldValue option" where
  "findField name h =
     map_option snd (find (\<lambda>f. lowerStr (fst f) = lowerStr name) h)"

text \<open>
  Modelled from the spec: lookup in a parameter map, whose keys are case-insensitive
  (section 3).
\<close>

definition parameter :: "string \<Rightarrow> (string \<times> string) list \<Rightarrow> string option" where
  "parameter name ps =
     map_option snd (find (\<lambda>kv. lowerStr (fst kv) = lowerStr name) ps)"

text \<open>
  Modelled from the spec: the media type a part has when its header gives none,
  \<^verbatim>\<open>text/plain; charset=us-ascii\<close> (section 3, invariants).
\<close>

definition defaultMediaType :: mediaType where
  "defaultMediaType =
     \<lparr>mt_type = ''text'', mt_subtype = ''plain'', mt_params = [(''charset'', ''us-ascii'')]\<rparr>"

text \<open>
  Modelled from the spec: the media type a header declares: the value of its
  \<^verbatim>\<open>Content-Type\<close> field, the default when the field is absent or has no typed value.
\<close>

definition headerMediaType :: "header \<Rightarrow> mediaType" where
  "headerMediaType h =
     (case findField ''Content-Type'' h of
        Some (MediaType mt) \<Rightarrow> mt
      | _ \<Rightarrow> defaultMediaType)"

text \<open>
  Modelled from the spec: the effective media type of a part (section 3, invariants;
  \<^verbatim>\<open>P.effective_media_type()\<close> in section 8).
\<close>

definition effective_media_type :: "part \<Rightarrow> mediaType" where
  "effective_media_type p = headerMediaType (part_header p)"

text \<open>
  Modelled from the spec: whether a body is multipart-shaped (\<^verbatim>\<open>P.body.is_multipart()\<close>
  in section 8).
\<close>

fun is_multipart :: "body \<Rightarrow> bool" where
  "is_multipart (Multipart pre kids epi) = True"
| "is_multipart (Leaf c) = False"
| "is_multipart (Encapsulated p) = False"

text \<open>
  Modelled from the spec: whether a body is a leaf, a single content handler (section 3:
  a body is a leaf, multipart-shaped, or one encapsulated part).
\<close>

fun is_leaf :: "body \<Rightarrow> bool" where
  "is_leaf (Leaf c) = True"
| "is_leaf (Multipart pre kids epi) = False"
| "is_leaf (Encapsulated p) = False"

text \<open>
  Modelled from the spec: the transfer encoding a header declares, the token of its
  \<^verbatim>\<open>Content-Transfer-Encoding\<close> field (section 4.4, leaf bodies).
\<close>

definition declaredEncoding :: "header \<Rightarrow> string option" where
  "declaredEncoding h =
     (case findField ''Content-Transfer-Encoding'' h of
        Some (Encoding e) \<Rightarrow> Some e
      | _ \<Rightarrow> None)"

text \<open>
  Modelled from the spec: the boundary a media type carries, the value of its
  \<^verbatim>\<open>boundary\<close> parameter; empty when there is no such parameter.
\<close>

definition boundaryOf :: "mediaType \<Rightarrow> string" where
  "boundaryOf mt = (case parameter ''boundary'' (mt_params mt) of Some b \<Rightarrow> b | None \<Rightarrow> [])"

text \<open>
  Modelled from the spec: a media type carries a non-empty boundary parameter (section 3,
  invariants).
\<close>

definition hasBoundary :: "mediaType \<Rightarrow> bool" where
  "hasBoundary mt =
     (case parameter ''boundary'' (mt_params mt) of Some b \<Rightarrow> b \<noteq> [] | None \<Rightarrow> False)"

text \<open>
  Modelled from the spec: all parts reachable from a part: the part itself, the children
  of a multipart body and the part a \<^verbatim>\<open>message/rfc822\<close> body encapsulates, recursively.
\<close>

fun allParts :: "part \<Rightarrow> part list" where
  "allParts (Part h (Leaf c)) = [Part h (Leaf c)]"
| "allParts (Part h (Multipart pre kids epi)) =
     Part h (Multipart pre kids epi) # concat (map allParts kids)"
| "allParts (Part h (Encapsulated p)) = Part h (Encapsulated p) # allParts p"


section \<open>The parser\<close>

text \<open>Modelled from the spec: the carriage return octet of a CRLF line end (section 6).\<close>

definition CR :: char where "CR = CHR 0x0D"

text \<open>Modelled from the spec: the line feed octet.\<close>

definition LF :: char where "LF = CHR 0x0A"

text \<open>Modelled from the spec: the space octet.\<close>

definition SP :: char where "SP = CHR 0x20"

text \<open>Modelled from the spec: the horizontal tab octet.\<close>

definition HTAB :: char where "HTAB = CHR 0x09"

text \<open>
  Modelled from the spec: a whitespace octet, space or tab, as a continuation line
  starts with (section 4.1).
\<close>

definition isWsp :: "char \<Rightarrow> bool" where
  "isWsp c = (c = SP \<or> c = HTAB)"

text \<open>
  Modelled from the spec: the physical lines of an octet sequence. A line ends with LF
  (after CR or bare, section 4.4) and keeps its terminator here, so that the lines
  concatenated are the input; the last line may have no terminator.
\<close>

fun splitLines :: "octets \<Rightarrow> octets list" where
  "splitLines [] = []"
| "splitLines (c # cs) =
     (if c = LF then [c] # splitLines cs
      else (case splitLines cs of [] \<Rightarrow> [[c]] | l # ls \<Rightarrow> (c # l) # ls))"

text \<open>Modelled from the spec: a line without its terminator (LF, or CR LF).\<close>

definition lineText :: "octets \<Rightarrow> octets" where
  "lineText l =
     (let t = (if l \<noteq> [] \<and> last l = LF then butlast l else l)
      in if t \<noteq> [] \<and> last t = CR then butlast t else t)"

text \<open>
  Modelled from the spec: the header block of a message, the lines before the first
  empty line (section 4.4, message parse).
\<close>

definition headerLines :: "octets \<Rightarrow> octets list" where
  "headerLines s = takeWhile (\<lambda>l. lineText l \<noteq> []) (splitLines s)"

text \<open>
  Modelled from the spec: the first empty line, which separates header and body; no
  octets when the input has no empty line.
\<close>

definition separatorLine :: "octets \<Rightarrow> octets" where
  "separatorLine s = concat (take 1 (dropWhile (\<lambda>l. lineText l \<noteq> []) (splitLines s)))"

text \<open>Modelled from the spec: the body octets, all octets after the first empty line.\<close>

definition bodyOctets :: "octets \<Rightarrow> octets" where
  "bodyOctets s = concat (drop 1 (dropWhile (\<lambda>l. lineText l \<noteq> []) (splitLines s)))"


text \<open>
  Modelled from the spec: a continuation line, one whose first octet is space or tab
  (section 4.1).
\<close>

definition isContinuation :: "octets \<Rightarrow> bool" where
  "isContinuation l = (case l of [] \<Rightarrow> False | c # cs \<Rightarrow> isWsp c)"

text \<open>
  Modelled from the spec: unfolding (section 4.1), which joins a continuation line onto
  the line before it and preserves one whitespace octet of the continuation's leading
  whitespace. A continuation line with no line before it stays a line of its own.
\<close>

fun unfoldLines :: "octets list \<Rightarrow> octets list" where
  "unfoldLines [] = []"
| "unfoldLines [l] = [l]"
| "unfoldLines (l # m # ls) =
     (if isContinuation m then unfoldLines ((l @ take 1 m @ dropWhile isWsp m) # ls)
      else l # unfoldLines (m # ls))"

text \<open>
  Modelled from the spec: one header field, \<^verbatim>\<open>name ":" value\<close> (section 4.4). A line
  that has no colon before its first whitespace, or an empty name, is malformed
  (\<open>MalformedHeader\<close>, section 7) and gives \<open>None\<close>: the line is dropped.
\<close>

definition parseField :: "octets \<Rightarrow> (string \<times> octets) option" where
  "parseField t =
     (let name = takeWhile (\<lambda>c. c \<noteq> CHR '':'' \<and> \<not> isWsp c) t;
          rest = dropWhile (\<lambda>c. c \<noteq> CHR '':'' \<and> \<not> isWsp c) t
      in case rest of
           [] \<Rightarrow> None
         | c # v \<Rightarrow>
             if c = CHR '':'' \<and> name \<noteq> [] then Some (name, dropWhile isWsp v) else None)"

text \<open>
  Modelled from the spec: the field registry of section 4.2, which maps a lower-cased
  field name to the parser of its typed value. The typed value parsers themselves
  (RFC 5322 addresses and dates, RFC 2045 and 2231 media types) are not described
  further, so the registry is a parameter of the parser; it gives \<open>None\<close> for an
  unknown name and for a value its parser rejects.
\<close>

type_synonym registry = "string \<Rightarrow> octets \<Rightarrow> fieldValue option"

text \<open>
  Modelled from the spec: the value of a parsed field: the typed value of the registry,
  \<open>Raw\<close> for an unknown name or a failed typed parse (\<open>MalformedFieldValue\<close>,
  section 7).
\<close>

definition typedField :: "registry \<Rightarrow> string \<times> octets \<Rightarrow> field" where
  "typedField reg f =
     (fst f, case reg (lowerStr (fst f)) (snd f) of Some v \<Rightarrow> v | None \<Rightarrow> Raw (snd f))"

text \<open>
  Modelled from the spec: the header of a message (section 4.4): the lines of the header
  block without their terminators, unfolded, each parsed as a field, malformed lines
  dropped.
\<close>

definition parseHeader :: "registry \<Rightarrow> octets \<Rightarrow> header" where
  "parseHeader reg s =
     map (typedField reg) (List.map_filter parseField (unfoldLines (map lineText (headerLines s))))"

text \<open>
  Modelled from the spec: a delimiter line of boundary \<open>b\<close>, a line that starts with
  \<^verbatim>\<open>--b\<close> (section 4.4, multipart).
\<close>

definition isDelimiter :: "string \<Rightarrow> octets \<Rightarrow> bool" where
  "isDelimiter b l = prefix (''--'' @ b) l"

text \<open>Modelled from the spec: the closing delimiter, a line that starts with \<^verbatim>\<open>--b--\<close>.\<close>

definition isClosing :: "string \<Rightarrow> octets \<Rightarrow> bool" where
  "isClosing b l = prefix (''--'' @ b @ ''--'') l"

text \<open>
  Modelled from the spec: the children and the epilogue of a multipart body, read from
  its lines starting at the first delimiter line (section 4.4). Each delimiter line
  opens a child, whose octets run until the next delimiter line; the octets after the
  closing delimiter are the epilogue. When the lines end without a closing delimiter
  (\<open>BoundaryUnterminated\<close>, section 7) the children found are kept and the epilogue is
  empty.
\<close>

function segments :: "string \<Rightarrow> octets list \<Rightarrow> octets list \<times> octets" where
  "segments b [] = ([], [])"
| "segments b (d # ls) =
     (if isClosing b d then ([], concat ls)
      else (let r = segments b (dropWhile (\<lambda>l. \<not> isDelimiter b l) ls)
            in (concat (takeWhile (\<lambda>l. \<not> isDelimiter b l) ls) # fst r, snd r)))"
  by pat_completeness auto
termination
  by (relation "measure (\<lambda>(b, ls). length ls)")
    (auto simp: le_imp_less_Suc length_dropWhile_le)

text \<open>
  Modelled from the spec: the preamble of a multipart body, the octets up to the first
  delimiter line (section 4.4).
\<close>

definition preamble :: "string \<Rightarrow> octets \<Rightarrow> octets" where
  "preamble b s = concat (takeWhile (\<lambda>l. \<not> isDelimiter b l) (splitLines s))"

text \<open>Modelled from the spec: the octets of each child of a multipart body, in order.\<close>

definition childOctets :: "string \<Rightarrow> octets \<Rightarrow> octets list" where
  "childOctets b s = fst (segments b (dropWhile (\<lambda>l. \<not> isDelimiter b l) (splitLines s)))"

text \<open>Modelled from the spec: the epilogue of a multipart body.\<close>

definition epilogue :: "string \<Rightarrow> octets \<Rightarrow> octets" where
  "epilogue b s = snd (segments b (dropWhile (\<lambda>l. \<not> isDelimiter b l) (splitLines s)))"


subsection \<open>The lines of an input and their lengths\<close>

lemma concat_splitLines: "concat (splitLines s) = s"
  by (induction s) (auto split: list.splits)

lemma splitLines_nonempty: "l \<in> set (splitLines s) \<Longrightarrow> l \<noteq> []"
  by (induction s arbitrary: l) (auto split: list.splits if_splits)

lemma length_concat_takeWhile_le: "length (concat (takeWhile P ls)) \<le> length (concat ls)"
proof -
  have "length (concat (takeWhile P ls @ dropWhile P ls)) = length (concat ls)" by simp
  then show ?thesis unfolding concat_append length_append by linarith
qed

lemma length_concat_dropWhile_le: "length (concat (dropWhile P ls)) \<le> length (concat ls)"
proof -
  have "length (concat (takeWhile P ls @ dropWhile P ls)) = length (concat ls)" by simp
  then show ?thesis unfolding concat_append length_append by linarith
qed

lemma length_concat_drop_le: "length (concat (drop n ls)) \<le> length (concat ls)"
proof -
  have "length (concat (take n ls @ drop n ls)) = length (concat ls)" by simp
  then show ?thesis unfolding concat_append length_append by linarith
qed

lemma header_separator_body: "concat (headerLines s) @ separatorLine s @ bodyOctets s = s"
proof -
  let ?P = "\<lambda>l. lineText l \<noteq> []"
  let ?t = "takeWhile ?P (splitLines s)"
  let ?d = "dropWhile ?P (splitLines s)"
  have "concat ?t @ concat (take 1 ?d) @ concat (drop 1 ?d) = concat (?t @ (take 1 ?d @ drop 1 ?d))"
    by (simp only: concat_append)
  also have "\<dots> = concat (splitLines s)"
    by (simp only: append_take_drop_id takeWhile_dropWhile_id)
  also have "\<dots> = s" by (rule concat_splitLines)
  finally show ?thesis
    by (simp only: headerLines_def separatorLine_def bodyOctets_def)
qed

lemma length_bodyOctets_le: "length (bodyOctets s) \<le> length s"
proof -
  have "length (concat (headerLines s) @ separatorLine s @ bodyOctets s) = length s"
    by (simp only: header_separator_body)
  then show ?thesis by simp
qed

lemma bodyOctets_shorter:
  assumes "headerLines s \<noteq> []"
  shows "length (bodyOctets s) < length s"
proof -
  from assms obtain l ls where hl: "headerLines s = l # ls"
    by (cases "headerLines s") auto
  then have "l \<in> set (takeWhile (\<lambda>l. lineText l \<noteq> []) (splitLines s))"
    by (simp add: headerLines_def)
  then have "l \<in> set (splitLines s)" by (rule set_takeWhileD[THEN conjunct1])
  then have "l \<noteq> []" by (rule splitLines_nonempty)
  then have pos: "0 < length (concat (headerLines s))" using hl by simp
  have "length (concat (headerLines s) @ separatorLine s @ bodyOctets s) = length s"
    by (simp only: header_separator_body)
  then have "length (concat (headerLines s)) + length (separatorLine s) + length (bodyOctets s)
               = length s"
    by (simp only: length_append add.assoc)
  with pos show ?thesis by linarith
qed

text \<open>
  A child of a multipart body is shorter than the body: at least the delimiter line that
  opens it lies outside it.
\<close>

lemma segments_child_shorter:
  "\<forall>l \<in> set ls. l \<noteq> [] \<Longrightarrow> x \<in> set (fst (segments b ls)) \<Longrightarrow> length x < length (concat ls)"
proof (induction b ls arbitrary: x rule: segments.induct)
  case (1 b)
  then show ?case by simp
next
  case (2 b d ls)
  let ?P = "\<lambda>l. \<not> isDelimiter b l"
  from "2.prems" have d: "d \<noteq> []" and ne: "\<forall>l \<in> set ls. l \<noteq> []" by auto
  from "2.prems"(2) have nc: "\<not> isClosing b d" by (auto split: if_splits)
  from "2.prems"(2) nc have
    "x = concat (takeWhile ?P ls) \<or> x \<in> set (fst (segments b (dropWhile ?P ls)))"
    by (auto simp: Let_def)
  then show ?case
  proof
    assume "x = concat (takeWhile ?P ls)"
    then have "length x \<le> length (concat ls)" by (simp add: length_concat_takeWhile_le)
    with d show ?thesis by (cases d) auto
  next
    assume x: "x \<in> set (fst (segments b (dropWhile ?P ls)))"
    have "\<forall>l \<in> set (dropWhile ?P ls). l \<noteq> []" using ne by (auto dest: set_dropWhileD)
    from "2.IH"[OF nc this x] have "length x < length (concat (dropWhile ?P ls))" .
    also have "\<dots> \<le> length (concat ls)" by (rule length_concat_dropWhile_le)
    finally show ?thesis by simp
  qed
qed

lemma childOctets_shorter: "x \<in> set (childOctets b s) \<Longrightarrow> length x < length s"
proof -
  assume x: "x \<in> set (childOctets b s)"
  let ?P = "\<lambda>l. \<not> isDelimiter b l"
  have ne: "\<forall>l \<in> set (dropWhile ?P (splitLines s)). l \<noteq> []"
    by (auto dest: set_dropWhileD splitLines_nonempty)
  from segments_child_shorter[OF ne] x
  have "length x < length (concat (dropWhile ?P (splitLines s)))" by (simp add: childOctets_def)
  also have "\<dots> \<le> length (concat (splitLines s))" by (rule length_concat_dropWhile_le)
  finally show ?thesis by (simp add: concat_splitLines)
qed

text \<open>
  A header that declares a \<^verbatim>\<open>message/*\<close> type has a \<^verbatim>\<open>Content-Type\<close> field, so the header
  block is not empty and the body is shorter than the message.
\<close>

lemma headerLines_Nil_parseHeader: "headerLines s = [] \<Longrightarrow> parseHeader reg s = []"
  by (simp add: parseHeader_def)

lemma headerMediaType_Nil: "headerMediaType [] = defaultMediaType"
  by (simp add: headerMediaType_def findField_def)

lemma message_type_bodyOctets_shorter:
  assumes "mt_type (headerMediaType (parseHeader reg s)) = ''message''"
  shows "length (bodyOctets s) < length s"
proof (rule bodyOctets_shorter, rule notI)
  assume "headerLines s = []"
  then have "headerMediaType (parseHeader reg s) = defaultMediaType"
    by (simp add: headerLines_Nil_parseHeader headerMediaType_Nil)
  with assms show False by (simp add: defaultMediaType_def)
qed

subsection \<open>Parsing a message\<close>

text \<open>
  Modelled from the spec: \<^verbatim>\<open>parse\<close> (\<^verbatim>\<open>vmime::message::parse\<close>, called in the book's first
  listing), after section 4.4. The header is parsed first; the body parse is driven by
  the effective media type:
  \<^item> \<^verbatim>\<open>multipart/*\<close> with a non-empty boundary parameter \<open>b\<close>: preamble, children
    (each parsed as a part) and epilogue, split at the delimiter lines of \<open>b\<close>;
  \<^item> \<^verbatim>\<open>multipart/*\<close> whose boundary parameter is missing or empty (\<open>BoundaryMissing\<close>,
    section 7): the body degrades to a single leaf that carries the body octets;
  \<^item> \<^verbatim>\<open>message/rfc822\<close>: the body octets parsed as a message;
  \<^item> otherwise a leaf: the body octets with the declared transfer encoding.

  The type names are compared as the typed parser returns them: section 3 has it
  normalise media type tokens. No branch raises: every anomaly of section 7 that concerns
  parsing has its recovery above or in \<open>parseField\<close>, \<open>typedField\<close> and \<open>segments\<close>.
  The termination proof shows that the recursion into children and encapsulated messages
  ends for every input.

  Section 4.4 says of a missing boundary parameter, as of a missing closing delimiter,
  that the children already found are kept. A delimiter line is a line that starts with
  \<^verbatim>\<open>--\<close> and the boundary, so without a boundary no line is a delimiter and no child is
  found: what is kept is the body as it stands, the single opaque leaf that section 7
  (\<open>BoundaryMissing\<close>) and scenario 6 of section 8 prescribe.
\<close>

function parse :: "registry \<Rightarrow> octets \<Rightarrow> part" where
  "parse reg s =
     (let h = parseHeader reg s; mt = headerMediaType h; b = boundaryOf mt; octs = bodyOctets s
      in Part h
           (if mt_type mt = ''multipart'' \<and> hasBoundary mt then
              Multipart (preamble b octs) (map (parse reg) (childOctets b octs)) (epilogue b octs)
            else if mt_type mt = ''message'' \<and> mt_subtype mt = ''rfc822'' then
              Encapsulated (parse reg octs)
            else Leaf \<lparr>ch_octets = octs, ch_encoding = declaredEncoding h\<rparr>))"
  by pat_completeness auto
termination
proof (relation "measure (\<lambda>(reg, s). length s)")
  show "wf (measure (\<lambda>(reg, s). length s))" by simp
next
  fix reg :: registry and s h mt b octs x
  assume "octs = bodyOctets s" "x \<in> set (childOctets b octs)"
  then have "length x < length (bodyOctets s)" by (simp add: childOctets_shorter)
  also have "\<dots> \<le> length s" by (rule length_bodyOctets_le)
  finally show "((reg, x), (reg, s)) \<in> measure (\<lambda>(reg, s). length s)" by simp
next
  fix reg :: registry and s h mt b octs
  assume "h = parseHeader reg s" "mt = headerMediaType h" "octs = bodyOctets s"
    "mt_type mt = ''message'' \<and> mt_subtype mt = ''rfc822''"
  then show "((reg, octs), (reg, s)) \<in> measure (\<lambda>(reg, s). length s)"
    using message_type_bodyOctets_shorter[of reg s] by simp
qed

declare parse.simps [simp del]


subsection \<open>Inputs for the examples\<close>

text \<open>
  A registry for the examples. It knows two fields. Its media type parser for
  \<^verbatim>\<open>Content-Type\<close> reads four values: \<^verbatim>\<open>multipart/mixed\<close> without a parameter,
  \<^verbatim>\<open>multipart/mixed\<close> with the boundary \<^verbatim>\<open>sep\<close>, \<^verbatim>\<open>text/plain\<close> and \<^verbatim>\<open>message/rfc822\<close>.
  Its date parser for \<^verbatim>\<open>Date\<close> reads the date of the book's \<^verbatim>\<open>hello.eml\<close>. Both reject
  every other value.
\<close>

definition exampleRegistry :: registry where
  "exampleRegistry name v =
     (if name = ''content-type'' \<and> v = ''multipart/mixed'' then
        Some (MediaType \<lparr>mt_type = ''multipart'', mt_subtype = ''mixed'', mt_params = []\<rparr>)
      else if name = ''content-type'' \<and> v = ''multipart/mixed; boundary=sep'' then
        Some (MediaType \<lparr>mt_type = ''multipart'', mt_subtype = ''mixed'',
                          mt_params = [(''boundary'', ''sep'')]\<rparr>)
      else if name = ''content-type'' \<and> v = ''text/plain'' then
        Some (MediaType \<lparr>mt_type = ''text'', mt_subtype = ''plain'', mt_params = []\<rparr>)
      else if name = ''content-type'' \<and> v = ''message/rfc822'' then
        Some (MediaType \<lparr>mt_type = ''message'', mt_subtype = ''rfc822'', mt_params = []\<rparr>)
      else if name = ''date'' \<and> v = ''Thu, Oct 13 2005 15:22:46 +0200'' then
        Some (DateTime \<lparr>dt_year = 2005, dt_month = 10, dt_day = 13, dt_hour = 15,
                         dt_minute = 22, dt_second = 46, dt_zone = 120\<rparr>)
      else None)"

text \<open>The line end CR LF.\<close>

definition CRLF :: octets where
  "CRLF = [CR, LF]"

text \<open>
  The header of scenario 6 of section 8, a \<^verbatim>\<open>Content-Type: multipart/mixed\<close> field
  without a boundary parameter, and the empty line that ends the header.
\<close>

definition mixedHeader :: octets where
  "mixedHeader = ''Content-Type: multipart/mixed'' @ CRLF @ CRLF"

text \<open>A body whose lines look like the delimiters of a boundary \<^verbatim>\<open>x\<close>.\<close>

definition delimitedBody :: octets where
  "delimitedBody = ''--x'' @ CRLF @ ''part'' @ CRLF @ ''--x--'' @ CRLF"

lemma parseHeader_mixed_example:
  "parseHeader exampleRegistry (mixedHeader @ rest)
     = [(''Content-Type'',
         MediaType \<lparr>mt_type = ''multipart'', mt_subtype = ''mixed'', mt_params = []\<rparr>)]"
  by (simp add: mixedHeader_def parseHeader_def headerLines_def lineText_def CRLF_def CR_def LF_def
      parseField_def isWsp_def SP_def HTAB_def typedField_def exampleRegistry_def
      lowerStr_def lowerChar_def)

lemma bodyOctets_mixed_example:
  "bodyOctets (mixedHeader @ rest) = rest"
  by (simp add: mixedHeader_def bodyOctets_def lineText_def CRLF_def CR_def LF_def concat_splitLines)

text \<open>
  A well-formed message with a folded \<^verbatim>\<open>Content-Type\<close> field, a preamble, two children
  (the second without header) and an epilogue.
\<close>

definition twoPartMessage :: octets where
  "twoPartMessage =
     ''Content-Type: multipart/mixed;'' @ CRLF @ ''  boundary=sep'' @ CRLF @ CRLF
     @ ''preamble'' @ CRLF
     @ ''--sep'' @ CRLF @ ''Content-Type: text/plain'' @ CRLF @ CRLF @ ''one'' @ CRLF
     @ ''--sep'' @ CRLF @ CRLF @ ''two'' @ CRLF
     @ ''--sep--'' @ CRLF @ ''epilogue''"

lemma parse_twoPartMessage:
  "parse exampleRegistry twoPartMessage =
     Part [(''Content-Type'',
            MediaType \<lparr>mt_type = ''multipart'', mt_subtype = ''mixed'',
                         mt_params = [(''boundary'', ''sep'')]\<rparr>)]
       (Multipart (''preamble'' @ CRLF)
          [Part [(''Content-Type'',
                  MediaType \<lparr>mt_type = ''text'', mt_subtype = ''plain'', mt_params = []\<rparr>)]
             (Leaf \<lparr>ch_octets = ''one'' @ CRLF, ch_encoding = None\<rparr>),
           Part [] (Leaf \<lparr>ch_octets = ''two'' @ CRLF, ch_encoding = None\<rparr>)]
          ''epilogue'')"
  by code_simp

text \<open>
  The \<^verbatim>\<open>hello.eml\<close> of the book's first listing and of scenario 1 of section 8, with
  CR LF line ends.
\<close>

definition helloMessage :: octets where
  "helloMessage =
     ''Date: Thu, Oct 13 2005 15:22:46 +0200'' @ CRLF
     @ ''From: Vincent <vincent@vmime.org>'' @ CRLF
     @ ''To: you@vmime.org'' @ CRLF
     @ ''Subject: Hello from VMime!'' @ CRLF
     @ CRLF
     @ ''A simple message to test VMime''"

text \<open>
  A message with three anomalies of section 7: a header line without the name/colon
  split, a \<^verbatim>\<open>Date\<close> value that the date parser rejects, and a multipart body whose
  closing delimiter is missing.
\<close>

definition anomalousMessage :: octets where
  "anomalousMessage =
     ''Content-Type: multipart/mixed; boundary=sep'' @ CRLF
     @ ''bad line'' @ CRLF
     @ ''Date: yesterday'' @ CRLF
     @ CRLF
     @ ''preamble'' @ CRLF
     @ ''--sep'' @ CRLF @ CRLF @ ''one'' @ CRLF
     @ ''--sep'' @ CRLF @ CRLF @ ''two'' @ CRLF"

text \<open>A message of type \<^verbatim>\<open>message/rfc822\<close> that encapsulates \<^verbatim>\<open>hello.eml\<close>.\<close>

definition forwardedMessage :: octets where
  "forwardedMessage = ''Content-Type: message/rfc822'' @ CRLF @ CRLF @ helloMessage"

text \<open>
  The flat \<^verbatim>\<open>text/plain\<close> message of scenario 5 of section 8, with a field that is not
  content-related before its \<^verbatim>\<open>Content-Type\<close> field.
\<close>

definition textMessage :: octets where
  "textMessage =
     ''Subject: Hello from VMime!'' @ CRLF @ ''Content-Type: text/plain'' @ CRLF @ CRLF
     @ ''A simple message to test VMime''"

subsection \<open>Properties of the parser\<close>

lemma effective_media_type_Part: "effective_media_type (Part h b) = headerMediaType h"
  by (simp add: effective_media_type_def)

lemma list_all_concat_map:
  "list_all P (concat (map f xs)) = list_all (\<lambda>x. list_all P (f x)) xs"
  by (induction xs) auto

text \<open>
  Modelled from the spec: a field name, a non-empty run of octets without colon and
  without white space (section 3: field names are tokens; section 4.4: a header line is a
  name, a colon and a value).
\<close>

definition goodName :: "string \<Rightarrow> bool" where
  "goodName n = (n \<noteq> [] \<and> list_all (\<lambda>c. c \<noteq> CHR '':'' \<and> \<not> isWsp c) n)"

text \<open>
  Modelled from the spec: a logical header line that has the name/colon split at its
  start: a colon of the line has a field name, and nothing else, before it.
  \<open>MalformedHeader\<close> (section 7) is the lack of this split.
\<close>

definition wellFormedLine :: "octets \<Rightarrow> bool" where
  "wellFormedLine t = list_ex (\<lambda>k. goodName (take k t) \<and> t ! k = CHR '':'') [0..<length t]"

text \<open>
  Modelled from the spec: the logical lines of the header block of an input: its physical
  lines without their line ends, unfolded (section 4.1).
\<close>

definition logicalLines :: "octets \<Rightarrow> octets list" where
  "logicalLines s = unfoldLines (map lineText (headerLines s))"

text \<open>
  Modelled from the spec: the fields that logical lines contribute to a header, in their
  order: one field, with its typed value, for each line that parses as a field.
\<close>

definition fieldsOf :: "registry \<Rightarrow> octets list \<Rightarrow> header" where
  "fieldsOf reg ls = map (typedField reg) (List.map_filter parseField ls)"

text \<open>
  Modelled from the spec: the layout of a multipart body for a boundary \<open>b\<close> (section
  4.4), as a decomposition of its lines:
  \<^item> \<open>pre\<close>, the lines before the first delimiter line: the preamble;
  \<^item> \<open>blocks\<close>: each block is a delimiter line that opens a child, followed by the
    child's lines, none of which is a delimiter line;
  \<^item> \<open>rest\<close>: empty when the closing delimiter is missing (\<open>BoundaryUnterminated\<close>,
    section 7), otherwise the closing delimiter line followed by the lines of the
    epilogue.
\<close>

definition multipartLayout ::
  "string \<Rightarrow> octets list \<Rightarrow> (octets \<times> octets list) list \<Rightarrow> octets list \<Rightarrow> octets list \<Rightarrow> bool" where
  "multipartLayout b pre blocks rest ls =
     (ls = pre @ concat (map (\<lambda>blk. fst blk # snd blk) blocks) @ rest
      \<and> list_all (\<lambda>l. \<not> isDelimiter b l) pre
      \<and> list_all (\<lambda>blk. isDelimiter b (fst blk) \<and> \<not> isClosing b (fst blk)
                          \<and> list_all (\<lambda>l. \<not> isDelimiter b l) (snd blk)) blocks
      \<and> (case rest of [] \<Rightarrow> True | c # epi \<Rightarrow> isClosing b c))"

lemma parseHeader_fieldsOf: "parseHeader reg s = fieldsOf reg (logicalLines s)"
  by (simp add: parseHeader_def fieldsOf_def logicalLines_def)

lemma wellFormedLine_iff:
  "wellFormedLine t \<longleftrightarrow> (\<exists>n v. goodName n \<and> t = n @ CHR '':'' # v)"
proof
  assume "wellFormedLine t"
  then obtain k where k: "k < length t" "goodName (take k t)" "t ! k = CHR '':''"
    by (auto simp: wellFormedLine_def list_ex_iff)
  from k(1) have "t = take k t @ t ! k # drop (Suc k) t" by (rule id_take_nth_drop)
  with k show "\<exists>n v. goodName n \<and> t = n @ CHR '':'' # v" by metis
next
  assume "\<exists>n v. goodName n \<and> t = n @ CHR '':'' # v"
  then obtain n v where g: "goodName n" and t: "t = n @ CHR '':'' # v" by blast
  have "length n < length t" "take (length n) t = n" "t ! length n = CHR '':''"
    by (simp_all add: t)
  with g show "wellFormedLine t"
    unfolding wellFormedLine_def list_ex_iff by (metis atLeast0LessThan lessThan_iff set_upt)
qed

lemma parseField_good:
  assumes "goodName n"
  shows "parseField (n @ CHR '':'' # v) = Some (n, dropWhile isWsp v)"
proof -
  let ?P = "\<lambda>c. c \<noteq> CHR '':'' \<and> \<not> isWsp c"
  from assms have all: "\<And>c. c \<in> set n \<Longrightarrow> ?P c" and ne: "n \<noteq> []"
    by (auto simp: goodName_def list_all_iff)
  have tw: "takeWhile ?P (n @ CHR '':'' # v) = n"
    using all by (simp add: takeWhile_append2)
  have dw: "dropWhile ?P (n @ CHR '':'' # v) = CHR '':'' # v"
    using all by (simp add: dropWhile_append2)
  show ?thesis unfolding parseField_def tw dw using ne by simp
qed

lemma parseField_Some_form:
  assumes "parseField t = Some f"
  shows "\<exists>n v. goodName n \<and> t = n @ CHR '':'' # v"
proof -
  let ?P = "\<lambda>c. c \<noteq> CHR '':'' \<and> \<not> isWsp c"
  from assms obtain v where d: "dropWhile ?P t = CHR '':'' # v" and ne: "takeWhile ?P t \<noteq> []"
    by (auto simp: parseField_def Let_def split: list.splits if_splits)
  have "goodName (takeWhile ?P t)"
    using ne by (auto simp: goodName_def list_all_iff dest: set_takeWhileD)
  moreover have "t = takeWhile ?P t @ CHR '':'' # v"
    using takeWhile_dropWhile_id[of ?P t] d by simp
  ultimately show ?thesis by blast
qed

lemma parseField_None_iff: "parseField t = None \<longleftrightarrow> \<not> wellFormedLine t"
proof (cases "parseField t")
  case None
  have "\<not> (\<exists>n v. goodName n \<and> t = n @ CHR '':'' # v)"
  proof
    assume "\<exists>n v. goodName n \<and> t = n @ CHR '':'' # v"
    then obtain n v where "goodName n" "t = n @ CHR '':'' # v" by blast
    then have "parseField t = Some (n, dropWhile isWsp v)" by (simp add: parseField_good)
    with None show False by simp
  qed
  with None show ?thesis by (simp add: wellFormedLine_iff)
next
  case (Some f)
  then have "\<exists>n v. goodName n \<and> t = n @ CHR '':'' # v" by (rule parseField_Some_form)
  with Some show ?thesis by (simp add: wellFormedLine_iff)
qed

lemma fieldsOf_append: "fieldsOf reg (xs @ ys) = fieldsOf reg xs @ fieldsOf reg ys"
  by (simp add: fieldsOf_def List.map_filter_def)

lemma fieldsOf_malformed: "\<not> wellFormedLine t \<Longrightarrow> fieldsOf reg [t] = []"
  by (simp add: fieldsOf_def List.map_filter_def parseField_None_iff)

lemma fieldsOf_good:
  "goodName n \<Longrightarrow>
   fieldsOf reg [n @ CHR '':'' # v]
     = [(n, case reg (lowerStr n) (dropWhile isWsp v) of
              Some x \<Rightarrow> x
            | None \<Rightarrow> Raw (dropWhile isWsp v))]"
  by (simp add: fieldsOf_def List.map_filter_def parseField_good typedField_def
      split: option.splits)

lemma isClosing_isDelimiter: "isClosing b l \<Longrightarrow> isDelimiter b l"
  unfolding isClosing_def isDelimiter_def
  by (metis append.assoc prefix_def)

lemma takeWhile_until:
  assumes "list_all P xs" and "case ys of [] \<Rightarrow> True | y # zs \<Rightarrow> \<not> P y"
  shows "takeWhile P (xs @ ys) = xs" and "dropWhile P (xs @ ys) = ys"
  using assms by (induction xs) (auto split: list.splits)

lemma blocks_start:
  assumes "list_all (\<lambda>blk. isDelimiter b (fst blk) \<and> \<not> isClosing b (fst blk)
                          \<and> list_all (\<lambda>l. \<not> isDelimiter b l) (snd blk)) blocks"
    and "case rest of [] \<Rightarrow> True | c # epi \<Rightarrow> isClosing b c"
  shows "case concat (map (\<lambda>blk. fst blk # snd blk) blocks) @ rest of
           [] \<Rightarrow> True
         | y # zs \<Rightarrow> \<not> \<not> isDelimiter b y"
  using assms by (cases blocks) (auto split: list.splits dest: isClosing_isDelimiter)

lemma segments_blocks:
  assumes "list_all (\<lambda>blk. isDelimiter b (fst blk) \<and> \<not> isClosing b (fst blk)
                          \<and> list_all (\<lambda>l. \<not> isDelimiter b l) (snd blk)) blocks"
    and "case rest of [] \<Rightarrow> True | c # epi \<Rightarrow> isClosing b c"
  shows "segments b (concat (map (\<lambda>blk. fst blk # snd blk) blocks) @ rest)
           = (map (\<lambda>blk. concat (snd blk)) blocks, concat (drop 1 rest))"
  using assms
proof (induction blocks)
  case Nil
  then show ?case by (cases rest) auto
next
  case (Cons blk blocks)
  let ?nd = "\<lambda>l. \<not> isDelimiter b l"
  let ?tail = "concat (map (\<lambda>blk. fst blk # snd blk) blocks) @ rest"
  from Cons.prems(1) have d: "\<not> isClosing b (fst blk)" and c: "list_all ?nd (snd blk)"
    and rest: "list_all (\<lambda>blk. isDelimiter b (fst blk) \<and> \<not> isClosing b (fst blk)
                          \<and> list_all (\<lambda>l. \<not> isDelimiter b l) (snd blk)) blocks"
    by auto
  have st: "case ?tail of [] \<Rightarrow> True | y # zs \<Rightarrow> \<not> ?nd y"
    by (rule blocks_start[OF rest Cons.prems(2)])
  have tw: "takeWhile ?nd (snd blk @ ?tail) = snd blk"
    and dw: "dropWhile ?nd (snd blk @ ?tail) = ?tail"
    using takeWhile_until[OF c st] by auto
  have "segments b (fst blk # (snd blk @ ?tail))
          = (concat (snd blk) # fst (segments b ?tail), snd (segments b ?tail))"
    using d by (simp add: Let_def tw dw)
  also have "segments b ?tail = (map (\<lambda>blk. concat (snd blk)) blocks, concat (drop 1 rest))"
    using Cons.IH[OF rest Cons.prems(2)] .
  finally show ?case by simp
qed

lemma multipartLayout_split:
  assumes "multipartLayout b pre blocks rest (splitLines octs)"
  shows "preamble b octs = concat pre"
    and "childOctets b octs = map (\<lambda>blk. concat (snd blk)) blocks"
    and "epilogue b octs = concat (drop 1 rest)"
proof -
  let ?nd = "\<lambda>l. \<not> isDelimiter b l"
  let ?tail = "concat (map (\<lambda>blk. fst blk # snd blk) blocks) @ rest"
  from assms have ls: "splitLines octs = pre @ ?tail"
    and pre: "list_all ?nd pre"
    and blocks: "list_all (\<lambda>blk. isDelimiter b (fst blk) \<and> \<not> isClosing b (fst blk)
                          \<and> list_all (\<lambda>l. \<not> isDelimiter b l) (snd blk)) blocks"
    and rest: "case rest of [] \<Rightarrow> True | c # epi \<Rightarrow> isClosing b c"
    by (auto simp: multipartLayout_def)
  have st: "case ?tail of [] \<Rightarrow> True | y # zs \<Rightarrow> \<not> ?nd y"
    by (rule blocks_start[OF blocks rest])
  have tw: "takeWhile ?nd (splitLines octs) = pre"
    and dw: "dropWhile ?nd (splitLines octs) = ?tail"
    unfolding ls using takeWhile_until[OF pre st] by auto
  show "preamble b octs = concat pre" by (simp add: preamble_def tw)
  show "childOctets b octs = map (\<lambda>blk. concat (snd blk)) blocks"
    by (simp add: childOctets_def dw segments_blocks[OF blocks rest])
  show "epilogue b octs = concat (drop 1 rest)"
    by (simp add: epilogue_def dw segments_blocks[OF blocks rest])
qed

lemma dropWhile_starts:
  "case dropWhile (\<lambda>l. \<not> isDelimiter b l) ls of [] \<Rightarrow> True | y # zs \<Rightarrow> isDelimiter b y"
proof (cases "dropWhile (\<lambda>l. \<not> isDelimiter b l) ls")
  case Nil
  show ?thesis unfolding Nil by simp
next
  case (Cons y zs)
  then have "dropWhile (\<lambda>l. \<not> isDelimiter b l) ls \<noteq> []" by simp
  from hd_dropWhile[OF this] show ?thesis unfolding Cons by simp
qed

lemma fieldsOf_Cons: "fieldsOf reg (t # ls) = fieldsOf reg [t] @ fieldsOf reg ls"
  using fieldsOf_append[of reg "[t]" ls] by simp

lemma layout_from_delimiter:
  assumes "case ls of [] \<Rightarrow> True | y # zs \<Rightarrow> isDelimiter b y"
  shows "\<exists>blocks rest.
           ls = concat (map (\<lambda>blk. fst blk # snd blk) blocks) @ rest
         \<and> list_all (\<lambda>blk. isDelimiter b (fst blk) \<and> \<not> isClosing b (fst blk)
                          \<and> list_all (\<lambda>l. \<not> isDelimiter b l) (snd blk)) blocks
         \<and> (case rest of [] \<Rightarrow> True | c # epi \<Rightarrow> isClosing b c)"
  using assms
proof (induction ls rule: length_induct)
  case (1 ls)
  let ?nd = "\<lambda>l. \<not> isDelimiter b l"
  show ?case
  proof (cases ls)
    case Nil
    then show ?thesis by (intro exI[of _ "[]"]) simp
  next
    case (Cons d tl)
    with "1.prems" have d: "isDelimiter b d" by simp
    show ?thesis
    proof (cases "isClosing b d")
      case True
      with Cons show ?thesis by (intro exI[of _ "[]"] exI[of _ ls]) simp
    next
      case False
      let ?c = "takeWhile ?nd tl"
      let ?r = "dropWhile ?nd tl"
      have len: "length ?r < length ls"
        using Cons by (simp add: le_imp_less_Suc length_dropWhile_le)
      have st: "case ?r of [] \<Rightarrow> True | y # zs \<Rightarrow> isDelimiter b y"
        by (rule dropWhile_starts)
      from "1.IH" len st obtain blocks rest where
        r: "?r = concat (map (\<lambda>blk. fst blk # snd blk) blocks) @ rest"
        and bl: "list_all (\<lambda>blk. isDelimiter b (fst blk) \<and> \<not> isClosing b (fst blk)
                          \<and> list_all (\<lambda>l. \<not> isDelimiter b l) (snd blk)) blocks"
        and re: "case rest of [] \<Rightarrow> True | c # epi \<Rightarrow> isClosing b c"
        by blast
      have c: "list_all ?nd ?c" by (auto simp: list_all_iff dest: set_takeWhileD)
      have "ls = d # (?c @ ?r)" using Cons by simp
      then have "ls = concat (map (\<lambda>blk. fst blk # snd blk) ((d, ?c) # blocks)) @ rest"
        using r by simp
      moreover have "list_all (\<lambda>blk. isDelimiter b (fst blk) \<and> \<not> isClosing b (fst blk)
                          \<and> list_all (\<lambda>l. \<not> isDelimiter b l) (snd blk)) ((d, ?c) # blocks)"
        using d False c bl by simp
      ultimately show ?thesis using re by blast
    qed
  qed
qed

lemma multipartLayout_exists: "\<exists>pre blocks rest. multipartLayout b pre blocks rest ls"
proof -
  let ?nd = "\<lambda>l. \<not> isDelimiter b l"
  have st: "case dropWhile ?nd ls of [] \<Rightarrow> True | y # zs \<Rightarrow> isDelimiter b y"
    by (rule dropWhile_starts)
  from layout_from_delimiter[OF st] obtain blocks rest where
    r: "dropWhile ?nd ls = concat (map (\<lambda>blk. fst blk # snd blk) blocks) @ rest"
    and bl: "list_all (\<lambda>blk. isDelimiter b (fst blk) \<and> \<not> isClosing b (fst blk)
                      \<and> list_all (\<lambda>l. \<not> isDelimiter b l) (snd blk)) blocks"
    and re: "case rest of [] \<Rightarrow> True | c # epi \<Rightarrow> isClosing b c"
    by blast
  have "ls = takeWhile ?nd ls @ concat (map (\<lambda>blk. fst blk # snd blk) blocks) @ rest"
    using r takeWhile_dropWhile_id[of ?nd ls] by simp
  moreover have "list_all ?nd (takeWhile ?nd ls)"
    by (auto simp: list_all_iff dest: set_takeWhileD)
  ultimately have "multipartLayout b (takeWhile ?nd ls) blocks rest ls"
    using bl re unfolding multipartLayout_def by blast
  then show ?thesis by blast
qed

text \<open>
  C4. Parsing returns a message for every input octet sequence and every registry of
  typed value parsers: \<open>parse\<close> is a total function, its recursion ends on every input
  and none of its branches is an error. What it returns on an anomaly is the recovery of
  section 7. For every input \<open>s\<close>:
  \<^item> a logical header line without the name/colon split (\<open>MalformedHeader\<close>) is dropped:
    the header is made of the fields of the lines before it and after it;
  \<^item> a logical header line \<open>n: v\<close> gives a field of name \<open>n\<close>, between the fields of the
    lines before it and after it; its value is the typed value when the typed parser of
    the registry accepts \<open>v\<close>, and the raw octets of \<open>v\<close> when that parser rejects it
    (\<open>MalformedFieldValue\<close>) or when the registry has no parser for \<open>n\<close>;
  \<^item> when the effective media type is \<^verbatim>\<open>multipart\<close> with a non-empty boundary, the lines
    of the body have a layout into preamble, blocks and rest, and for every such layout
    the body is multipart-shaped: its preamble is the layout's, its children are the
    parses of the blocks' lines, in order, and its epilogue is what follows the closing
    delimiter; when the closing delimiter is missing (\<open>BoundaryUnterminated\<close>, an empty
    rest), the children found are kept and the epilogue is empty;
  \<^item> when the effective media type is \<^verbatim>\<open>multipart\<close> and the boundary parameter is missing
    or empty (\<open>BoundaryMissing\<close>; in particular \<^verbatim>\<open>multipart/mixed\<close> without a boundary
    parameter), the body is a single leaf that carries all the body octets;
  \<^item> \<^verbatim>\<open>message/rfc822\<close> gives the parse of the body octets as the encapsulated message,
    and every other type a leaf that carries all the body octets;
  \<^item> the input is the header lines, the separator line and the body octets, in this
    order: the body octets are all the octets after the header.
\<close>

theorem parse_recovers:
  "(logicalLines s = ls1 @ [t] @ ls2 \<and> \<not> wellFormedLine t
      \<longrightarrow> part_header (parse reg s) = fieldsOf reg ls1 @ fieldsOf reg ls2)
   \<and> (logicalLines s = ls3 @ [n @ CHR '':'' # v] @ ls4 \<and> goodName n
      \<longrightarrow> part_header (parse reg s)
            = fieldsOf reg ls3
              @ [(n, case reg (lowerStr n) (dropWhile isWsp v) of
                       Some x \<Rightarrow> x
                     | None \<Rightarrow> Raw (dropWhile isWsp v))]
              @ fieldsOf reg ls4)
   \<and> (mt_type (effective_media_type (parse reg s)) = ''multipart''
        \<and> hasBoundary (effective_media_type (parse reg s))
      \<longrightarrow> (\<exists>pre blocks rest.
             multipartLayout (boundaryOf (effective_media_type (parse reg s))) pre blocks rest
               (splitLines (bodyOctets s))))
   \<and> (mt_type (effective_media_type (parse reg s)) = ''multipart''
        \<and> hasBoundary (effective_media_type (parse reg s))
        \<and> multipartLayout (boundaryOf (effective_media_type (parse reg s))) pre blocks rest
             (splitLines (bodyOctets s))
      \<longrightarrow> part_body (parse reg s)
            = Multipart (concat pre) (map (\<lambda>blk. parse reg (concat (snd blk))) blocks)
                (concat (drop 1 rest)))
   \<and> (mt_type (effective_media_type (parse reg s)) = ''multipart''
        \<and> \<not> hasBoundary (effective_media_type (parse reg s))
      \<longrightarrow> part_body (parse reg s)
            = Leaf \<lparr>ch_octets = bodyOctets s,
                    ch_encoding = declaredEncoding (part_header (parse reg s))\<rparr>)
   \<and> (mt_type (effective_media_type (parse reg s)) = ''message''
        \<and> mt_subtype (effective_media_type (parse reg s)) = ''rfc822''
      \<longrightarrow> part_body (parse reg s) = Encapsulated (parse reg (bodyOctets s)))
   \<and> (mt_type (effective_media_type (parse reg s)) \<noteq> ''multipart''
        \<and> \<not> (mt_type (effective_media_type (parse reg s)) = ''message''
              \<and> mt_subtype (effective_media_type (parse reg s)) = ''rfc822'')
      \<longrightarrow> part_body (parse reg s)
            = Leaf \<lparr>ch_octets = bodyOctets s,
                    ch_encoding = declaredEncoding (part_header (parse reg s))\<rparr>)
   \<and> concat (headerLines s) @ separatorLine s @ bodyOctets s = s"
proof -
  let ?mt = "headerMediaType (parseHeader reg s)"
  have h: "part_header (parse reg s) = fieldsOf reg (logicalLines s)"
    by (subst parse.simps) (simp add: Let_def parseHeader_fieldsOf)
  have e: "effective_media_type (parse reg s) = ?mt"
    by (subst parse.simps) (simp add: Let_def effective_media_type_def)
  have b: "part_body (parse reg s) =
      (if mt_type ?mt = ''multipart'' \<and> hasBoundary ?mt then
         Multipart (preamble (boundaryOf ?mt) (bodyOctets s))
           (map (parse reg) (childOctets (boundaryOf ?mt) (bodyOctets s)))
           (epilogue (boundaryOf ?mt) (bodyOctets s))
       else if mt_type ?mt = ''message'' \<and> mt_subtype ?mt = ''rfc822'' then
         Encapsulated (parse reg (bodyOctets s))
       else Leaf \<lparr>ch_octets = bodyOctets s,
                  ch_encoding = declaredEncoding (part_header (parse reg s))\<rparr>)"
    by (subst parse.simps, subst (3) parse.simps) (simp add: Let_def)
  have c1: "part_header (parse reg s) = fieldsOf reg ls1 @ fieldsOf reg ls2"
    if "logicalLines s = ls1 @ [t] @ ls2" "\<not> wellFormedLine t"
    using that by (simp add: h fieldsOf_append fieldsOf_Cons[of reg t ls2] fieldsOf_malformed)
  have c2: "part_header (parse reg s)
            = fieldsOf reg ls3
              @ [(n, case reg (lowerStr n) (dropWhile isWsp v) of
                       Some x \<Rightarrow> x
                     | None \<Rightarrow> Raw (dropWhile isWsp v))]
              @ fieldsOf reg ls4"
    if "logicalLines s = ls3 @ [n @ CHR '':'' # v] @ ls4" "goodName n"
    using that
    by (simp add: h fieldsOf_append fieldsOf_Cons[of reg "n @ CHR '':'' # v" ls4] fieldsOf_good)
  have c4: "part_body (parse reg s)
            = Multipart (concat pre) (map (\<lambda>blk. parse reg (concat (snd blk))) blocks)
                (concat (drop 1 rest))"
    if "mt_type ?mt = ''multipart''" "hasBoundary ?mt"
      "multipartLayout (boundaryOf ?mt) pre blocks rest (splitLines (bodyOctets s))"
    using that by (simp add: b multipartLayout_split comp_def)
  have c3: "\<exists>pre blocks rest.
              multipartLayout (boundaryOf ?mt) pre blocks rest (splitLines (bodyOctets s))"
    by (rule multipartLayout_exists)
  have c5: "part_body (parse reg s)
            = Leaf \<lparr>ch_octets = bodyOctets s,
                    ch_encoding = declaredEncoding (part_header (parse reg s))\<rparr>"
    if "mt_type ?mt = ''multipart''" "\<not> hasBoundary ?mt"
    using that by (simp add: b)
  have c6: "part_body (parse reg s) = Encapsulated (parse reg (bodyOctets s))"
    if "mt_type ?mt = ''message''" "mt_subtype ?mt = ''rfc822''"
    using that by (simp add: b)
  have c7: "part_body (parse reg s)
            = Leaf \<lparr>ch_octets = bodyOctets s,
                    ch_encoding = declaredEncoding (part_header (parse reg s))\<rparr>"
    if "mt_type ?mt \<noteq> ''multipart''"
      "\<not> (mt_type ?mt = ''message'' \<and> mt_subtype ?mt = ''rfc822'')"
    using that by (simp add: b)
  show ?thesis
    unfolding e
    by (intro conjI impI; (elim conjE)?) (rule c1 c2 c3 c4 c5 c6 c7 header_separator_body; assumption)+
qed

text \<open>
  The recoveries on four inputs. In the message with the three anomalies, the line
  without colon is dropped, the rejected \<^verbatim>\<open>Date\<close> value stays as raw octets, and the two
  children of the unterminated multipart body are kept, with an empty epilogue. The body
  of the message of scenario 6, whose lines look like delimiters, is one leaf with all
  its octets. The encapsulated message and \<^verbatim>\<open>hello.eml\<close> show the remaining two cases.
\<close>

theorem parse_recovers_witness:
  "part_header (parse exampleRegistry anomalousMessage)
     = [(''Content-Type'',
         MediaType \<lparr>mt_type = ''multipart'', mt_subtype = ''mixed'',
                      mt_params = [(''boundary'', ''sep'')]\<rparr>),
        (''Date'', Raw ''yesterday'')]
   \<and> part_body (parse exampleRegistry anomalousMessage)
     = Multipart (''preamble'' @ CRLF)
         [parse exampleRegistry (CRLF @ ''one'' @ CRLF), parse exampleRegistry (CRLF @ ''two'' @ CRLF)] []
   \<and> part_body (parse exampleRegistry (mixedHeader @ delimitedBody))
     = Leaf \<lparr>ch_octets = delimitedBody, ch_encoding = None\<rparr>
   \<and> part_body (parse exampleRegistry forwardedMessage) = Encapsulated (parse exampleRegistry helloMessage)
   \<and> part_body (parse exampleRegistry helloMessage)
     = Leaf \<lparr>ch_octets = ''A simple message to test VMime'', ch_encoding = None\<rparr>"
proof -
  let ?ct = "''Content-Type: multipart/mixed; boundary=sep''"
  let ?hA = "[(''Content-Type'',
               MediaType \<lparr>mt_type = ''multipart'', mt_subtype = ''mixed'',
                            mt_params = [(''boundary'', ''sep'')]\<rparr>),
              (''Date'', Raw ''yesterday'')]"
  let ?blocks = "[(''--sep'' @ CRLF, [CRLF, ''one'' @ CRLF]), (''--sep'' @ CRLF, [CRLF, ''two'' @ CRLF])]"
  note A = parse_recovers[where s = anomalousMessage and reg = exampleRegistry
      and ?ls1.0 = "[?ct]" and t = "''bad line''" and ?ls2.0 = "[''Date: yesterday'']"
      and ?ls3.0 = "[?ct, ''bad line'']" and n = "''Date''" and v = "'' yesterday''" and ?ls4.0 = "[]"
      and pre = "[''preamble'' @ CRLF]" and blocks = ?blocks and rest = "[]"]
  \<comment> \<open>the malformed line is dropped\<close>
  have ll1: "logicalLines anomalousMessage = [?ct] @ [''bad line''] @ [''Date: yesterday'']"
    by code_simp
  have bad: "\<not> wellFormedLine ''bad line''" by code_simp
  have f1: "fieldsOf exampleRegistry [?ct] @ fieldsOf exampleRegistry [''Date: yesterday''] = ?hA" by code_simp
  from A ll1 bad have "part_header (parse exampleRegistry anomalousMessage)
      = fieldsOf exampleRegistry [?ct] @ fieldsOf exampleRegistry [''Date: yesterday'']"
    by blast
  then have hA: "part_header (parse exampleRegistry anomalousMessage) = ?hA" by (simp only: f1)
  \<comment> \<open>the value that the date parser rejects stays as raw octets\<close>
  have ll2: "logicalLines anomalousMessage
             = [?ct, ''bad line''] @ [''Date'' @ CHR '':'' # '' yesterday''] @ []"
    by code_simp
  have good: "goodName ''Date''" by code_simp
  from A ll2 good have "part_header (parse exampleRegistry anomalousMessage)
      = fieldsOf exampleRegistry [?ct, ''bad line'']
        @ [(''Date'', case exampleRegistry (lowerStr ''Date'') (dropWhile isWsp '' yesterday'') of
                        Some x \<Rightarrow> x
                      | None \<Rightarrow> Raw (dropWhile isWsp '' yesterday''))]
        @ fieldsOf exampleRegistry []"
    by blast
  \<comment> \<open>the multipart body without closing delimiter keeps its two children\<close>
  have eA: "effective_media_type (parse exampleRegistry anomalousMessage)
            = \<lparr>mt_type = ''multipart'', mt_subtype = ''mixed'', mt_params = [(''boundary'', ''sep'')]\<rparr>"
    unfolding effective_media_type_def hA by code_simp
  have tA: "mt_type (effective_media_type (parse exampleRegistry anomalousMessage)) = ''multipart''"
    and bA: "hasBoundary (effective_media_type (parse exampleRegistry anomalousMessage))"
    and sA: "boundaryOf (effective_media_type (parse exampleRegistry anomalousMessage)) = ''sep''"
    unfolding eA by code_simp+
  have lay: "multipartLayout (boundaryOf (effective_media_type (parse exampleRegistry anomalousMessage)))
               [''preamble'' @ CRLF] ?blocks [] (splitLines (bodyOctets anomalousMessage))"
    unfolding sA by code_simp
  from A tA bA lay have "part_body (parse exampleRegistry anomalousMessage)
      = Multipart (concat [''preamble'' @ CRLF])
          (map (\<lambda>blk. parse exampleRegistry (concat (snd blk))) ?blocks) (concat (drop 1 []))"
    by blast
  then have bodyA: "part_body (parse exampleRegistry anomalousMessage)
     = Multipart (''preamble'' @ CRLF)
         [parse exampleRegistry (CRLF @ ''one'' @ CRLF), parse exampleRegistry (CRLF @ ''two'' @ CRLF)] []"
    by simp
  \<comment> \<open>the multipart type without boundary parameter gives a leaf\<close>
  note B = parse_recovers[where s = "mixedHeader @ delimitedBody" and reg = exampleRegistry
      and ?ls1.0 = "[]" and t = "[]" and ?ls2.0 = "[]"
      and ?ls3.0 = "[]" and n = "''Content-Type''" and v = "'' multipart/mixed''" and ?ls4.0 = "[]"]
  have llB: "logicalLines (mixedHeader @ delimitedBody)
             = [] @ [''Content-Type'' @ CHR '':'' # '' multipart/mixed''] @ []"
    by code_simp
  have goodB: "goodName ''Content-Type''" by code_simp
  from B llB goodB have "part_header (parse exampleRegistry (mixedHeader @ delimitedBody))
      = fieldsOf exampleRegistry []
        @ [(''Content-Type'',
            case exampleRegistry (lowerStr ''Content-Type'') (dropWhile isWsp '' multipart/mixed'') of
              Some x \<Rightarrow> x
            | None \<Rightarrow> Raw (dropWhile isWsp '' multipart/mixed''))]
        @ fieldsOf exampleRegistry []"
    by blast
  also have "\<dots> = [(''Content-Type'',
                    MediaType \<lparr>mt_type = ''multipart'', mt_subtype = ''mixed'', mt_params = []\<rparr>)]"
    by code_simp
  finally have hB: "part_header (parse exampleRegistry (mixedHeader @ delimitedBody))
      = [(''Content-Type'',
          MediaType \<lparr>mt_type = ''multipart'', mt_subtype = ''mixed'', mt_params = []\<rparr>)]" .
  have eB: "effective_media_type (parse exampleRegistry (mixedHeader @ delimitedBody))
            = \<lparr>mt_type = ''multipart'', mt_subtype = ''mixed'', mt_params = []\<rparr>"
    unfolding effective_media_type_def hB by code_simp
  have tB: "mt_type (effective_media_type (parse exampleRegistry (mixedHeader @ delimitedBody))) = ''multipart''"
    and bB: "\<not> hasBoundary (effective_media_type (parse exampleRegistry (mixedHeader @ delimitedBody)))"
    unfolding eB by code_simp+
  from B tB bB have "part_body (parse exampleRegistry (mixedHeader @ delimitedBody))
      = Leaf \<lparr>ch_octets = bodyOctets (mixedHeader @ delimitedBody),
              ch_encoding = declaredEncoding (part_header (parse exampleRegistry (mixedHeader @ delimitedBody)))\<rparr>"
    by blast
  also have "\<dots> = Leaf \<lparr>ch_octets = delimitedBody, ch_encoding = None\<rparr>"
    unfolding hB by code_simp
  finally have bodyB: "part_body (parse exampleRegistry (mixedHeader @ delimitedBody))
      = Leaf \<lparr>ch_octets = delimitedBody, ch_encoding = None\<rparr>" .
  \<comment> \<open>an encapsulated message\<close>
  note C = parse_recovers[where s = forwardedMessage and reg = exampleRegistry
      and ?ls3.0 = "[]" and n = "''Content-Type''" and v = "'' message/rfc822''" and ?ls4.0 = "[]"]
  have llC: "logicalLines forwardedMessage
             = [] @ [''Content-Type'' @ CHR '':'' # '' message/rfc822''] @ []"
    by code_simp
  from C llC goodB have "part_header (parse exampleRegistry forwardedMessage)
      = fieldsOf exampleRegistry []
        @ [(''Content-Type'',
            case exampleRegistry (lowerStr ''Content-Type'') (dropWhile isWsp '' message/rfc822'') of
              Some x \<Rightarrow> x
            | None \<Rightarrow> Raw (dropWhile isWsp '' message/rfc822''))]
        @ fieldsOf exampleRegistry []"
    by blast
  also have "\<dots> = [(''Content-Type'',
                    MediaType \<lparr>mt_type = ''message'', mt_subtype = ''rfc822'', mt_params = []\<rparr>)]"
    by code_simp
  finally have hC: "part_header (parse exampleRegistry forwardedMessage)
      = [(''Content-Type'',
          MediaType \<lparr>mt_type = ''message'', mt_subtype = ''rfc822'', mt_params = []\<rparr>)]" .
  have eC: "effective_media_type (parse exampleRegistry forwardedMessage)
            = \<lparr>mt_type = ''message'', mt_subtype = ''rfc822'', mt_params = []\<rparr>"
    unfolding effective_media_type_def hC by code_simp
  have mC: "mt_type (effective_media_type (parse exampleRegistry forwardedMessage)) = ''message''"
    and sC: "mt_subtype (effective_media_type (parse exampleRegistry forwardedMessage)) = ''rfc822''"
    unfolding eC by code_simp+
  from C mC sC have "part_body (parse exampleRegistry forwardedMessage)
      = Encapsulated (parse exampleRegistry (bodyOctets forwardedMessage))"
    by blast
  also have "bodyOctets forwardedMessage = helloMessage" by code_simp
  finally have bodyC: "part_body (parse exampleRegistry forwardedMessage)
      = Encapsulated (parse exampleRegistry helloMessage)" .
  \<comment> \<open>the message of the book's first listing\<close>
  note D = parse_recovers[where s = helloMessage and reg = exampleRegistry
      and ?ls3.0 = "[]" and n = "''Date''" and v = "'' Thu, Oct 13 2005 15:22:46 +0200''"
      and ?ls4.0 = "[''From: Vincent <vincent@vmime.org>'', ''To: you@vmime.org'',
                     ''Subject: Hello from VMime!'']"]
  have llD: "logicalLines helloMessage
             = [] @ [''Date'' @ CHR '':'' # '' Thu, Oct 13 2005 15:22:46 +0200'']
               @ [''From: Vincent <vincent@vmime.org>'', ''To: you@vmime.org'',
                  ''Subject: Hello from VMime!'']"
    by code_simp
  from D llD good have "part_header (parse exampleRegistry helloMessage)
      = fieldsOf exampleRegistry []
        @ [(''Date'',
            case exampleRegistry (lowerStr ''Date'')
                   (dropWhile isWsp '' Thu, Oct 13 2005 15:22:46 +0200'') of
              Some x \<Rightarrow> x
            | None \<Rightarrow> Raw (dropWhile isWsp '' Thu, Oct 13 2005 15:22:46 +0200''))]
        @ fieldsOf exampleRegistry [''From: Vincent <vincent@vmime.org>'', ''To: you@vmime.org'',
                         ''Subject: Hello from VMime!'']"
    by blast
  also have "\<dots> = [(''Date'', DateTime \<lparr>dt_year = 2005, dt_month = 10, dt_day = 13,
                                       dt_hour = 15, dt_minute = 22, dt_second = 46,
                                       dt_zone = 120\<rparr>),
                   (''From'', Raw ''Vincent <vincent@vmime.org>''),
                   (''To'', Raw ''you@vmime.org''),
                   (''Subject'', Raw ''Hello from VMime!'')]"
    by code_simp
  finally have hD: "part_header (parse exampleRegistry helloMessage)
      = [(''Date'', DateTime \<lparr>dt_year = 2005, dt_month = 10, dt_day = 13,
                               dt_hour = 15, dt_minute = 22, dt_second = 46,
                               dt_zone = 120\<rparr>),
         (''From'', Raw ''Vincent <vincent@vmime.org>''),
         (''To'', Raw ''you@vmime.org''),
         (''Subject'', Raw ''Hello from VMime!'')]" .
  have eD: "effective_media_type (parse exampleRegistry helloMessage) = defaultMediaType"
    unfolding effective_media_type_def hD by code_simp
  have tD: "mt_type (effective_media_type (parse exampleRegistry helloMessage)) \<noteq> ''multipart''"
    and mD: "\<not> (mt_type (effective_media_type (parse exampleRegistry helloMessage)) = ''message''
               \<and> mt_subtype (effective_media_type (parse exampleRegistry helloMessage)) = ''rfc822'')"
    unfolding eD by code_simp+
  from D tD mD have "part_body (parse exampleRegistry helloMessage)
      = Leaf \<lparr>ch_octets = bodyOctets helloMessage,
              ch_encoding = declaredEncoding (part_header (parse exampleRegistry helloMessage))\<rparr>"
    by blast
  also have "\<dots> = Leaf \<lparr>ch_octets = ''A simple message to test VMime'', ch_encoding = None\<rparr>"
    unfolding hD by code_simp
  finally have bodyD: "part_body (parse exampleRegistry helloMessage)
      = Leaf \<lparr>ch_octets = ''A simple message to test VMime'', ch_encoding = None\<rparr>" .
  from hA bodyA bodyB bodyC bodyD show ?thesis by (intro conjI)
qed


section \<open>The message builder\<close>

text \<open>
  Modelled from the spec: an embedded object of an HTML text part (section 4.6), with the
  identifier generated for it, its media type and its data.
\<close>

record embeddedObject =
  eo_id :: string
  eo_type :: mediaType
  eo_data :: octets

text \<open>
  Modelled from the spec: an HTML text part (section 4.6, the class
  \<^verbatim>\<open>vmime::htmlTextPart\<close> of the book's listings): charset, HTML text, optional
  plain-text alternative, embedded objects in the order in which they were added.
\<close>

record htmlTextPart =
  htp_charset :: string
  htp_text :: octets
  htp_plainText :: "octets option"
  htp_objects :: "embeddedObject list"

text \<open>
  Modelled from the spec: a text part (sections 4.6 and 4.7, the class
  \<^verbatim>\<open>vmime::textPart\<close>): a plain text part, which is a charset and a text, or an HTML text
  part.
\<close>

datatype textPart =
    PlainTextPart string octets
  | HtmlTextPart htmlTextPart

text \<open>
  Modelled from the spec: the HTML text part that \<^verbatim>\<open>constructTextPart\<close> creates for
  \<^verbatim>\<open>text/html\<close> (book's listing): no text, no alternative, no object, the default
  charset of section 3.
\<close>

definition newHtmlTextPart :: htmlTextPart where
  "newHtmlTextPart =
     \<lparr>htp_charset = ''us-ascii'', htp_text = [], htp_plainText = None, htp_objects = []\<rparr>"

text \<open>Modelled from the spec: \<^verbatim>\<open>setCharset\<close> of a text part (book's listing).\<close>

definition setCharset :: "string \<Rightarrow> htmlTextPart \<Rightarrow> htmlTextPart" where
  "setCharset cs h = h\<lparr>htp_charset := cs\<rparr>"

text \<open>Modelled from the spec: \<^verbatim>\<open>setText\<close> of a text part (book's listing).\<close>

definition setText :: "octets \<Rightarrow> htmlTextPart \<Rightarrow> htmlTextPart" where
  "setText t h = h\<lparr>htp_text := t\<rparr>"

text \<open>Modelled from the spec: \<^verbatim>\<open>setPlainText\<close> of an HTML text part (book's listing).\<close>

definition setPlainText :: "octets \<Rightarrow> htmlTextPart \<Rightarrow> htmlTextPart" where
  "setPlainText t h = h\<lparr>htp_plainText := Some t\<rparr>"

text \<open>
  Modelled from the spec: the identifier by which an HTML text refers to an embedded
  object: the URI \<^verbatim>\<open>cid:\<close> followed by the object's identifier (scenario 3 of section 8).
\<close>

definition objectUri :: "embeddedObject \<Rightarrow> string" where
  "objectUri obj = ''cid:'' @ eo_id obj"

text \<open>
  Modelled from the spec: \<^verbatim>\<open>addObject\<close> of an HTML text part (book's listing). It adds the
  object under a generated identifier and returns the string that identifies the
  object in the HTML text. The listing writes the returned string unchanged into the
  \<^verbatim>\<open>src\<close> attribute of the image, and scenario 3 finds \<^verbatim>\<open>cid:\<close> and the identifier in
  the HTML body; so the returned string is the object's URI. The generated identifier
  comes from the randomness collaborator of section 6 and is the parameter \<open>rid\<close>.
\<close>

definition addObject ::
  "string \<Rightarrow> octets \<Rightarrow> mediaType \<Rightarrow> htmlTextPart \<Rightarrow> string \<times> htmlTextPart" where
  "addObject rid dat mt h =
     (let obj = \<lparr>eo_id = rid, eo_type = mt, eo_data = dat\<rparr>
      in (objectUri obj, h\<lparr>htp_objects := htp_objects h @ [obj]\<rparr>))"

text \<open>Modelled from the spec: an attachment of the builder, its media type and data.\<close>

record attachment =
  att_type :: mediaType
  att_data :: octets

text \<open>
  Modelled from the spec: the state a \<^verbatim>\<open>messageBuilder\<close> holds (section 4.7): expeditor,
  recipients, copy recipients, blind-copy recipients, subject, text part, attachments.
\<close>

record messageBuilder =
  mb_expeditor :: mailbox
  mb_recipients :: addressList
  mb_copyRecipients :: addressList
  mb_blindCopyRecipients :: addressList
  mb_subject :: text_value
  mb_textPart :: textPart
  mb_attachments :: "attachment list"

text \<open>Modelled from the spec: the media type of a text leaf, with its charset.\<close>

definition textMediaType :: "string \<Rightarrow> string \<Rightarrow> mediaType" where
  "textMediaType sub cs =
     \<lparr>mt_type = ''text'', mt_subtype = sub, mt_params = [(''charset'', cs)]\<rparr>"

text \<open>Modelled from the spec: a leaf part of a given media type.\<close>

definition leafPart :: "mediaType \<Rightarrow> octets \<Rightarrow> part" where
  "leafPart mt octs =
     Part [(''Content-Type'', MediaType mt)] (Leaf \<lparr>ch_octets = octs, ch_encoding = None\<rparr>)"

text \<open>
  Modelled from the spec: the media type of a multipart part of a given subtype,
  \<^verbatim>\<open>multipart/mixed; boundary=...\<close> in section 4.8. The boundary is made of random octets
  (randomness collaborator, section 6) behind a fixed prefix, so that it is never empty,
  as section 3 requires.
\<close>

definition multipartMediaType :: "octets \<Rightarrow> string \<Rightarrow> mediaType" where
  "multipartMediaType rnd sub =
     \<lparr>mt_type = ''multipart'', mt_subtype = sub, mt_params = [(''boundary'', ''=_'' @ rnd)]\<rparr>"

text \<open>
  Modelled from the spec: a multipart part of a given subtype with the given children;
  its media type carries the boundary of its body (section 3).
\<close>

definition multipartPart :: "octets \<Rightarrow> string \<Rightarrow> part list \<Rightarrow> part" where
  "multipartPart rnd sub kids =
     Part [(''Content-Type'', MediaType (multipartMediaType rnd sub))] (Multipart [] kids [])"

text \<open>
  Modelled from the spec: the part of an embedded object. Its \<^verbatim>\<open>Content-ID\<close> is the
  object's identifier in angle brackets (scenario 3 of section 8).
\<close>

definition objectPart :: "embeddedObject \<Rightarrow> part" where
  "objectPart obj =
     Part [(''Content-Type'', MediaType (eo_type obj)),
           (''Content-ID'', MessageId (''<'' @ eo_id obj @ ''>''))]
          (Leaf \<lparr>ch_octets = eo_data obj, ch_encoding = None\<rparr>)"

text \<open>Modelled from the spec: the part of an attachment.\<close>

definition attachmentPart :: "attachment \<Rightarrow> part" where
  "attachmentPart a =
     Part [(''Content-Type'', MediaType (att_type a)),
           (''Content-Disposition'',
            ContentDisposition \<lparr>cd_token = ''attachment'', cd_params = []\<rparr>)]
          (Leaf \<lparr>ch_octets = att_data a, ch_encoding = None\<rparr>)"

text \<open>
  Modelled from the spec: the first four rows of the decision table of section 4.7, the
  tree of the text part. \<open>A\<close> says that the HTML text has a plain alternative, \<open>R\<close> that it
  has embedded objects:
  \<^item> no \<open>A\<close>, no \<open>R\<close>: a single text leaf;
  \<^item> \<open>A\<close>, no \<open>R\<close>: \<^verbatim>\<open>multipart/alternative { plain, html }\<close>;
  \<^item> no \<open>A\<close>, \<open>R\<close>: \<^verbatim>\<open>multipart/related { html, objects... }\<close>;
  \<^item> \<open>A\<close> and \<open>R\<close>:
    \<^verbatim>\<open>multipart/alternative { plain, multipart/related { html, objects... } }\<close>.

  \<open>rnd\<close> gives the random octets of the boundaries: \<open>rnd 1\<close> for the alternative
  container and \<open>rnd 2\<close> for the related one.
\<close>

fun textTree :: "(nat \<Rightarrow> octets) \<Rightarrow> textPart \<Rightarrow> part" where
  "textTree rnd (PlainTextPart cs txt) = leafPart (textMediaType ''plain'' cs) txt"
| "textTree rnd (HtmlTextPart h) =
     (let htmlP = leafPart (textMediaType ''html'' (htp_charset h)) (htp_text h);
          objPs = map objectPart (htp_objects h)
      in case htp_plainText h of
           None \<Rightarrow>
             if htp_objects h = [] then htmlP
             else multipartPart (rnd 2) ''related'' (htmlP # objPs)
         | Some plain \<Rightarrow>
             if htp_objects h = [] then
               multipartPart (rnd 1) ''alternative''
                 [leafPart (textMediaType ''plain'' (htp_charset h)) plain, htmlP]
             else
               multipartPart (rnd 1) ''alternative''
                 [leafPart (textMediaType ''plain'' (htp_charset h)) plain,
                  multipartPart (rnd 2) ''related'' (htmlP # objPs)])"

text \<open>
  Modelled from the spec: \<open>P\<close> of the decision table: the builder has a non-text
  attachment. The table has no row for an attachment of type \<^verbatim>\<open>text\<close>: alone it does not
  make \<open>P\<close> true, and it is part of the tree only in the last row, which lists the
  attachments.
\<close>

definition hasNonTextAttachment :: "messageBuilder \<Rightarrow> bool" where
  "hasNonTextAttachment b = list_ex (\<lambda>a. mt_type (att_type a) \<noteq> ''text'') (mb_attachments b)"

text \<open>
  Modelled from the spec: the header fields set on the outermost part (section 4.7):
  \<^verbatim>\<open>Date\<close> (the clock's \<open>now\<close>), \<^verbatim>\<open>From\<close>, \<^verbatim>\<open>To\<close>, \<^verbatim>\<open>Cc\<close>, \<^verbatim>\<open>Bcc\<close>, \<^verbatim>\<open>Subject\<close>,
  \<^verbatim>\<open>MIME-Version: 1.0\<close> and a generated \<^verbatim>\<open>Message-ID\<close>. The clock and the message
  identifier come from external collaborators (section 6) and are parameters.
\<close>

definition messageFields :: "dateTime \<Rightarrow> string \<Rightarrow> messageBuilder \<Rightarrow> header" where
  "messageFields now msgid b =
     [(''Date'', DateTime now),
      (''From'', Mailbox (mb_expeditor b)),
      (''To'', AddressList (mb_recipients b)),
      (''Cc'', AddressList (mb_copyRecipients b)),
      (''Bcc'', AddressList (mb_blindCopyRecipients b)),
      (''Subject'', Text (mb_subject b)),
      (''MIME-Version'', Raw ''1.0''),
      (''Message-ID'', MessageId msgid)]"

text \<open>
  Modelled from the spec: \<^verbatim>\<open>construct()\<close> (\<^verbatim>\<open>vmime::messageBuilder::construct\<close>, called in
  the book's listings), after section 4.7: the tree of the text part, wrapped with the
  attachments into \<^verbatim>\<open>multipart/mixed\<close> when \<open>P\<close> holds (last row of the table), with
  the message fields set on the outermost part. The table selects its last row by \<open>P\<close>
  alone; its other rows list no attachment.
\<close>

definition construct ::
  "dateTime \<Rightarrow> string \<Rightarrow> (nat \<Rightarrow> octets) \<Rightarrow> messageBuilder \<Rightarrow> part" where
  "construct now msgid rnd b =
     (let tree = textTree rnd (mb_textPart b);
          root = (if hasNonTextAttachment b
                  then multipartPart (rnd 0) ''mixed''
                         (tree # map attachmentPart (mb_attachments b))
                  else tree)
      in Part (messageFields now msgid b @ part_header root) (part_body root))"


subsection \<open>Reading a constructed tree\<close>










subsection \<open>The message of the book's HTML listing\<close>

text \<open>The double quote octet.\<close>

definition DQUOTE :: char where
  "DQUOTE = CHR 0x22"

text \<open>
  The builder after the calls of the book's listing on building an HTML message with an
  embedded image, in their order: subject, expeditor and recipient are set; the text
  part is constructed for \<^verbatim>\<open>text/html\<close>; \<^verbatim>\<open>addObject\<close> adds the JPEG image and returns
  \<open>id\<close>; the charset is set; the HTML text is set to the listing's text, into which
  \<open>id\<close> is put as it was returned; the plain text is set. \<open>rid\<close> is the identifier
  generated for the image.
\<close>

definition listingBuilder :: "string \<Rightarrow> messageBuilder" where
  "listingBuilder rid =
     (let (id, h1) = addObject rid ''<...image data...>''
                       \<lparr>mt_type = ''image'', mt_subtype = ''jpeg'', mt_params = []\<rparr>
                       newHtmlTextPart;
          h2 = setCharset ''iso-8859-15'' h1;
          h3 = setText (''This is the <b>HTML text</b>, and the image:<br/><img src=''
                          @ [DQUOTE] @ id @ [DQUOTE] @ ''/>'') h2;
          h4 = setPlainText ''This is the plain text.'' h3
      in \<lparr>mb_expeditor = \<lparr>mbx_name = [], mbx_email = ''me@vmime.org''\<rparr>,
          mb_recipients = [Mailbox_address \<lparr>mbx_name = [], mbx_email = ''you@vmime.org''\<rparr>],
          mb_copyRecipients = [],
          mb_blindCopyRecipients = [],
          mb_subject = [(''us-ascii'', ''An HTML message'')],
          mb_textPart = HtmlTextPart h4,
          mb_attachments = []\<rparr>)"

text \<open>A date for the \<^verbatim>\<open>Date\<close> field of the example.\<close>

definition docNow :: dateTime where
  "docNow =
     \<lparr>dt_year = 2005, dt_month = 10, dt_day = 13, dt_hour = 15, dt_minute = 22,
      dt_second = 46, dt_zone = 120\<rparr>"

text \<open>Random octets for the boundaries of the example.\<close>

definition docRandom :: "nat \<Rightarrow> octets" where
  "docRandom k = replicate (Suc k) (CHR ''x'')"

subsection \<open>Properties of the builder\<close>


lemma headerMediaType_messageFields:
  "headerMediaType (messageFields now msgid b @ h) = headerMediaType h"
  by (simp add: headerMediaType_def findField_def messageFields_def lowerStr_def lowerChar_def)

lemma headerMediaType_Content_Type:
  "headerMediaType ((''Content-Type'', MediaType mt) # h) = mt"
  by (simp add: headerMediaType_def findField_def)









section \<open>Mutation and the multipart invariant\<close>

text \<open>
  Modelled from the spec: a part as it is created, with an empty header and an empty
  leaf body (\<^verbatim>\<open>vmime::make_shared <vmime::message>()\<close> in the book's listing on building a
  message from scratch).
\<close>

definition emptyPart :: part where
  "emptyPart = Part [] (Leaf \<lparr>ch_octets = [], ch_encoding = None\<rparr>)"

text \<open>
  Modelled from the spec: header mutation (section 5), \<^verbatim>\<open>appendField\<close> in the book's
  listing: the field is added at the end of the header.
\<close>

definition appendField :: "field \<Rightarrow> part \<Rightarrow> part" where
  "appendField f p = Part (part_header p @ [f]) (part_body p)"

text \<open>
  Modelled from the spec: body replacement (section 5), \<^verbatim>\<open>setContents\<close> in the book's
  listing: the body becomes the leaf of the given content handler.
\<close>

definition setContents :: "contentHandler \<Rightarrow> part \<Rightarrow> part" where
  "setContents c p = Part (part_header p) (Leaf c)"

text \<open>
  Modelled from the spec: child insertion (section 5) at the end of the children of a
  multipart-shaped body. The other bodies have no children and are left as they are.
\<close>

fun appendChild :: "part \<Rightarrow> body \<Rightarrow> body" where
  "appendChild k (Multipart pre kids epi) = Multipart pre (kids @ [k]) epi"
| "appendChild k (Leaf c) = Leaf c"
| "appendChild k (Encapsulated p) = Encapsulated p"

text \<open>
  Modelled from the spec: the content-related header fields of section 4.8:
  \<^verbatim>\<open>Content-Type\<close>, \<^verbatim>\<open>Content-Transfer-Encoding\<close> and \<^verbatim>\<open>Content-Disposition\<close>, by their
  ASCII-lowercased names.
\<close>

definition isContentField :: "field \<Rightarrow> bool" where
  "isContentField f =
     (lowerStr (fst f) \<in> set [''content-type'', ''content-transfer-encoding'',
                               ''content-disposition''])"

text \<open>
  Modelled from the spec: the root to which \<^verbatim>\<open>addAttachment\<close> appends (section 4.8): its
  effective media type is \<^verbatim>\<open>multipart/mixed\<close> and its body has children to append to.
\<close>

definition isMultipartMixed :: "part \<Rightarrow> bool" where
  "isMultipartMixed p =
     (mt_type (effective_media_type p) = ''multipart''
      \<and> mt_subtype (effective_media_type p) = ''mixed''
      \<and> is_multipart (part_body p))"

text \<open>
  Modelled from the spec: \<^verbatim>\<open>addAttachment\<close> (\<^verbatim>\<open>vmime::attachmentHelper::addAttachment\<close>,
  called in the book's last listing), after section 4.8. If the root is
  \<^verbatim>\<open>multipart/mixed\<close>, the part of the attachment is appended to its children. Otherwise
  the root's body is wrapped into a fresh \<^verbatim>\<open>multipart/mixed\<close>: the first child is the
  original content, with the content-related fields of the root, the second child is the
  attachment; the root keeps its other fields and gets the \<^verbatim>\<open>Content-Type\<close>
  \<^verbatim>\<open>multipart/mixed; boundary=...\<close>, whose random octets are the parameter \<open>rnd\<close>
  (randomness collaborator, section 6).
\<close>

definition addAttachment :: "octets \<Rightarrow> attachment \<Rightarrow> part \<Rightarrow> part" where
  "addAttachment rnd att msg =
     (if isMultipartMixed msg then
        Part (part_header msg) (appendChild (attachmentPart att) (part_body msg))
      else
        Part (filter (\<lambda>f. \<not> isContentField f) (part_header msg)
              @ [(''Content-Type'', MediaType (multipartMediaType rnd ''mixed''))])
             (Multipart []
                [Part (filter isContentField (part_header msg)) (part_body msg),
                 attachmentPart att]
                []))"

text \<open>
  Modelled from the spec: the invariant of sections 3 and 8 as it is stated there: the
  effective top-level type is \<^verbatim>\<open>multipart\<close> exactly when the body is multipart-shaped,
  and a part of that type carries a non-empty boundary parameter.
\<close>

definition multipartInvariant :: "part \<Rightarrow> bool" where
  "multipartInvariant p =
     ((mt_type (effective_media_type p) = ''multipart'' \<longleftrightarrow> is_multipart (part_body p))
      \<and> (mt_type (effective_media_type p) = ''multipart''
           \<longrightarrow> hasBoundary (effective_media_type p)))"

text \<open>
  Modelled from the spec: what sections 4.4 and 7 give for a parsed part: the body is
  multipart-shaped exactly when the effective top-level type is \<^verbatim>\<open>multipart\<close> and the media
  type carries a non-empty boundary parameter; and a part of type \<^verbatim>\<open>multipart\<close> whose
  boundary parameter is missing or empty has a leaf body (\<open>BoundaryMissing\<close>).
\<close>

definition parsedInvariant :: "part \<Rightarrow> bool" where
  "parsedInvariant p =
     ((is_multipart (part_body p) \<longleftrightarrow>
         mt_type (effective_media_type p) = ''multipart'' \<and> hasBoundary (effective_media_type p))
      \<and> (mt_type (effective_media_type p) = ''multipart'' \<and> \<not> hasBoundary (effective_media_type p)
           \<longrightarrow> is_leaf (part_body p)))"

text \<open>
  Modelled from the spec: the embedded objects of a text part are leaves (glossary;
  section 4.7 puts them as the children of \<^verbatim>\<open>multipart/related\<close> after the HTML part):
  none is given the top-level type \<^verbatim>\<open>multipart\<close>.
\<close>

fun leafObjects :: "textPart \<Rightarrow> bool" where
  "leafObjects (PlainTextPart cs t) = True"
| "leafObjects (HtmlTextPart h) =
     list_all (\<lambda>obj. mt_type (eo_type obj) \<noteq> ''multipart'') (htp_objects h)"

text \<open>
  Modelled from the spec: the attachments and the embedded objects of a builder are
  leaves (glossary: an attachment is a leaf part; section 4.8 excludes \<^verbatim>\<open>multipart/*\<close> from
  the attachments): none is given the top-level type \<^verbatim>\<open>multipart\<close>.
\<close>

definition leafInputs :: "messageBuilder \<Rightarrow> bool" where
  "leafInputs b =
     (list_all (\<lambda>a. mt_type (att_type a) \<noteq> ''multipart'') (mb_attachments b)
      \<and> leafObjects (mb_textPart b))"

text \<open>The attachment of the book's last listing, a JPEG image.\<close>

definition jpegAttachment :: attachment where
  "jpegAttachment =
     \<lparr>att_type = \<lparr>mt_type = ''image'', mt_subtype = ''jpeg'', mt_params = []\<rparr>,
      att_data = ''<...image data...>''\<rparr>"

text \<open>A \<^verbatim>\<open>Content-Type\<close> field of type \<^verbatim>\<open>multipart/mixed\<close> with a non-empty boundary.\<close>

definition multipartField :: field where
  "multipartField = (''Content-Type'', MediaType (multipartMediaType ''x'' ''mixed''))"

subsection \<open>Properties of the invariant\<close>

lemma allParts_descendants: "tl (allParts (Part h b)) = tl (allParts (Part h' b))"
  by (cases b) simp_all

lemma list_all_allParts:
  "list_all P (allParts (Part h b)) \<longleftrightarrow> P (Part h b) \<and> list_all P (tl (allParts (Part h b)))"
  by (cases b) simp_all

lemma list_all_mapI:
  "list_all Q xs \<Longrightarrow> (\<And>x. Q x \<Longrightarrow> R (f x)) \<Longrightarrow> list_all R (map f xs)"
  by (induction xs) simp_all

lemma multipartInvariant_Part:
  "multipartInvariant (Part h b) \<longleftrightarrow>
     ((mt_type (headerMediaType h) = ''multipart'' \<longleftrightarrow> is_multipart b)
      \<and> (mt_type (headerMediaType h) = ''multipart'' \<longrightarrow> hasBoundary (headerMediaType h)))"
  by (simp add: multipartInvariant_def effective_media_type_def)

lemma hasBoundary_multipartMediaType: "hasBoundary (multipartMediaType rnd sub)"
  by (simp add: hasBoundary_def multipartMediaType_def parameter_def lowerStr_def lowerChar_def)

lemma mt_type_multipartMediaType: "mt_type (multipartMediaType rnd sub) = ''multipart''"
  by (simp add: multipartMediaType_def)

lemma inv_leafPart:
  "mt_type mt \<noteq> ''multipart'' \<Longrightarrow> list_all multipartInvariant (allParts (leafPart mt octs))"
  by (simp add: leafPart_def multipartInvariant_Part headerMediaType_Content_Type)

lemma inv_objectPart:
  "mt_type (eo_type obj) \<noteq> ''multipart'' \<Longrightarrow>
   list_all multipartInvariant (allParts (objectPart obj))"
  by (simp add: objectPart_def multipartInvariant_Part headerMediaType_Content_Type)

lemma inv_attachmentPart:
  "mt_type (att_type a) \<noteq> ''multipart'' \<Longrightarrow>
   list_all multipartInvariant (allParts (attachmentPart a))"
  by (simp add: attachmentPart_def multipartInvariant_Part headerMediaType_Content_Type)

lemma inv_multipartPart:
  "list_all (\<lambda>k. list_all multipartInvariant (allParts k)) kids \<Longrightarrow>
   list_all multipartInvariant (allParts (multipartPart rnd sub kids))"
  by (simp add: multipartPart_def multipartInvariant_Part headerMediaType_Content_Type
      hasBoundary_multipartMediaType mt_type_multipartMediaType list_all_concat_map)

lemma inv_textTree:
  assumes "leafObjects tp"
  shows "list_all multipartInvariant (allParts (textTree rnd tp))"
proof (cases tp)
  case (PlainTextPart cs t)
  then show ?thesis by (simp add: inv_leafPart textMediaType_def)
next
  case (HtmlTextPart h)
  with assms have objs: "list_all (\<lambda>obj. mt_type (eo_type obj) \<noteq> ''multipart'') (htp_objects h)"
    by simp
  have o: "list_all (\<lambda>k. list_all multipartInvariant (allParts k)) (map objectPart (htp_objects h))"
    by (rule list_all_mapI[OF objs]) (rule inv_objectPart)
  have t: "\<And>sub octs. list_all multipartInvariant
             (allParts (leafPart (textMediaType sub (htp_charset h)) octs))"
    by (simp add: inv_leafPart textMediaType_def)
  show ?thesis
    unfolding HtmlTextPart
    by (auto simp: Let_def t o intro!: inv_multipartPart split: option.splits)
qed

lemma inv_outermost:
  assumes "list_all multipartInvariant (allParts root)"
  shows "list_all multipartInvariant
           (allParts (Part (messageFields now msgid b @ part_header root) (part_body root)))"
proof -
  obtain h bd where r: "root = Part h bd" by (cases root)
  from assms have top: "multipartInvariant (Part h bd)"
    and rest: "list_all multipartInvariant (tl (allParts (Part h bd)))"
    unfolding r by (simp_all add: list_all_allParts[of _ h bd])
  from top have top': "multipartInvariant (Part (messageFields now msgid b @ h) bd)"
    by (simp add: multipartInvariant_Part headerMediaType_messageFields)
  from rest have "list_all multipartInvariant (tl (allParts (Part (messageFields now msgid b @ h) bd)))"
    by (simp add: allParts_descendants[of "messageFields now msgid b @ h" bd h])
  with top' show ?thesis
    by (simp add: r list_all_allParts[of _ "messageFields now msgid b @ h" bd])
qed

lemma inv_construct:
  assumes "leafInputs b"
  shows "list_all multipartInvariant (allParts (construct now msgid rnd b))"
proof -
  from assms have atts: "list_all (\<lambda>a. mt_type (att_type a) \<noteq> ''multipart'') (mb_attachments b)"
    and tp: "leafObjects (mb_textPart b)"
    by (simp_all add: leafInputs_def)
  have tree: "list_all multipartInvariant (allParts (textTree rnd (mb_textPart b)))"
    by (rule inv_textTree[OF tp])
  have a: "list_all (\<lambda>k. list_all multipartInvariant (allParts k))
             (map attachmentPart (mb_attachments b))"
    by (rule list_all_mapI[OF atts]) (rule inv_attachmentPart)
  have mixed: "list_all multipartInvariant
      (allParts (multipartPart (rnd 0) ''mixed''
         (textTree rnd (mb_textPart b) # map attachmentPart (mb_attachments b))))"
    by (rule inv_multipartPart) (simp add: tree a)
  show ?thesis
    unfolding construct_def Let_def
    by (rule inv_outermost) (simp add: tree mixed)
qed

lemma parsed_parts_invariant:
  "list_all parsedInvariant (allParts (parse reg s))"
proof (induction reg s rule: parse.induct)
  case (1 reg s)
  let ?h = "parseHeader reg s"
  let ?mt = "headerMediaType ?h"
  let ?b = "boundaryOf ?mt"
  let ?octs = "bodyOctets s"
  show ?case
  proof (cases "mt_type ?mt = ''multipart'' \<and> hasBoundary ?mt")
    case True
    then have p: "parse reg s =
        Part ?h (Multipart (preamble ?b ?octs) (map (parse reg) (childOctets ?b ?octs)) (epilogue ?b ?octs))"
      by (subst parse.simps) (simp add: Let_def)
    have kids: "list_all (\<lambda>x. list_all parsedInvariant (allParts (parse reg x))) (childOctets ?b ?octs)"
    proof -
      have "\<forall>x \<in> set (childOctets ?b ?octs). list_all parsedInvariant (allParts (parse reg x))"
        using "1.IH"(1)[OF refl refl refl refl True] by blast
      then show ?thesis by (simp add: list_all_iff)
    qed
    have top: "parsedInvariant (parse reg s)"
      using True by (simp add: p parsedInvariant_def effective_media_type_Part)
    show ?thesis
      using top kids by (simp add: p list_all_concat_map comp_def list_all_iff)
  next
    case False
    show ?thesis
    proof (cases "mt_type ?mt = ''message'' \<and> mt_subtype ?mt = ''rfc822''")
      case msg: True
      with False have p: "parse reg s = Part ?h (Encapsulated (parse reg ?octs))"
        by (subst parse.simps) (simp add: Let_def)
      have sub: "list_all parsedInvariant (allParts (parse reg ?octs))"
        using "1.IH"(2)[OF refl refl refl refl False msg] .
      have top: "parsedInvariant (parse reg s)"
        using msg by (simp add: p parsedInvariant_def effective_media_type_Part)
      show ?thesis using top sub by (simp add: p)
    next
      case leaf: False
      with False have p: "parse reg s =
          Part ?h (Leaf \<lparr>ch_octets = ?octs, ch_encoding = declaredEncoding ?h\<rparr>)"
        by (subst parse.simps) (simp add: Let_def)
      have top: "parsedInvariant (parse reg s)"
        using False by (auto simp: p parsedInvariant_def effective_media_type_Part)
      show ?thesis using top by (simp add: p)
    qed
  qed
qed

lemma find_filter_same:
  "(\<And>x. P x \<Longrightarrow> Q x) \<Longrightarrow> find P (filter Q xs) = find P xs"
  by (induction xs) auto

lemma find_filter_none:
  "(\<And>x. P x \<Longrightarrow> Q x) \<Longrightarrow> find P (filter (\<lambda>x. \<not> Q x) xs) = None"
  by (induction xs) auto

lemma find_append_none:
  "find P xs = None \<Longrightarrow> find P (xs @ ys) = find P ys"
  by (induction xs) (auto split: if_splits)

lemma lowerStr_Content_Type: "lowerStr ''Content-Type'' = ''content-type''"
  by (simp add: lowerStr_def lowerChar_def)

lemma headerMediaType_contentFields:
  "headerMediaType (filter isContentField h) = headerMediaType h"
proof -
  have "find (\<lambda>f. lowerStr (fst f) = lowerStr ''Content-Type'') (filter isContentField h)
        = find (\<lambda>f. lowerStr (fst f) = lowerStr ''Content-Type'') h"
    by (rule find_filter_same) (simp add: isContentField_def lowerStr_Content_Type)
  then show ?thesis by (simp add: headerMediaType_def findField_def)
qed

lemma headerMediaType_otherFields:
  "headerMediaType (filter (\<lambda>f. \<not> isContentField f) h @ [(''Content-Type'', MediaType mt)]) = mt"
proof -
  have "find (\<lambda>f. lowerStr (fst f) = lowerStr ''Content-Type'') (filter (\<lambda>f. \<not> isContentField f) h)
        = None"
    by (rule find_filter_none) (simp add: isContentField_def lowerStr_Content_Type)
  then show ?thesis by (simp add: headerMediaType_def findField_def find_append_none)
qed

lemma inv_addAttachment:
  assumes inv: "list_all multipartInvariant (allParts msg)"
    and att: "mt_type (att_type att) \<noteq> ''multipart''"
  shows "list_all multipartInvariant (allParts (addAttachment rnd att msg))"
proof -
  obtain h bd where m: "msg = Part h bd" by (cases msg)
  from inv have top: "multipartInvariant (Part h bd)"
    and rest: "list_all multipartInvariant (tl (allParts (Part h bd)))"
    unfolding m by (simp_all add: list_all_allParts[of _ h bd])
  note a = inv_attachmentPart[OF att]
  show ?thesis
  proof (cases "isMultipartMixed msg")
    case True
    then obtain pre kids epi where bd: "bd = Multipart pre kids epi"
      by (cases bd) (simp_all add: isMultipartMixed_def m)
    from True have r: "addAttachment rnd att msg
        = Part h (Multipart pre (kids @ [attachmentPart att]) epi)"
      by (simp add: addAttachment_def m bd)
    from top have top': "multipartInvariant (Part h (Multipart pre (kids @ [attachmentPart att]) epi))"
      by (simp add: multipartInvariant_Part bd)
    from rest have "list_all multipartInvariant (concat (map allParts kids))"
      by (simp add: bd)
    with top' a show ?thesis by (simp add: r)
  next
    case False
    let ?first = "Part (filter isContentField h) bd"
    let ?mt = "multipartMediaType rnd ''mixed''"
    from False have r: "addAttachment rnd att msg
        = Part (filter (\<lambda>f. \<not> isContentField f) h @ [(''Content-Type'', MediaType ?mt)])
            (Multipart [] [?first, attachmentPart att] [])"
      by (simp add: addAttachment_def m)
    from top have f1: "multipartInvariant ?first"
      by (simp add: multipartInvariant_Part headerMediaType_contentFields)
    from rest have f2: "list_all multipartInvariant (tl (allParts ?first))"
      by (simp add: allParts_descendants[of "filter isContentField h" bd h])
    from f1 f2 have first: "list_all multipartInvariant (allParts ?first)"
      by (simp add: list_all_allParts[of _ "filter isContentField h" bd])
    have root: "multipartInvariant
        (Part (filter (\<lambda>f. \<not> isContentField f) h @ [(''Content-Type'', MediaType ?mt)])
            (Multipart [] [?first, attachmentPart att] []))"
      by (simp add: multipartInvariant_Part headerMediaType_otherFields
          hasBoundary_multipartMediaType mt_type_multipartMediaType)
    from root first a show ?thesis by (simp add: r)
  qed
qed

text \<open>
  C2 (as amended). The invariant in the three ways a part is reached.
  \<^item> Parsing. For every part reachable by parsing, from any input and with any registry:
    the body is multipart-shaped if and only if the effective top-level type is
    \<^verbatim>\<open>multipart\<close> and the media type carries a non-empty boundary parameter; and a part of
    type \<^verbatim>\<open>multipart\<close> whose boundary parameter is missing or empty has a leaf body.
  \<^item> Building. For every part of a tree that \<^verbatim>\<open>construct()\<close> builds from a builder whose
    attachments and embedded objects are not themselves of type \<^verbatim>\<open>multipart\<close>: the
    effective top-level type is \<^verbatim>\<open>multipart\<close> if and only if the body is
    multipart-shaped, and then the media type carries a non-empty boundary parameter.
  \<^item> Mutation. The same holds for a newly created part, and \<^verbatim>\<open>addAttachment\<close> of an
    attachment that is not of type \<^verbatim>\<open>multipart\<close> keeps it: when it holds for every part
    of a message, it holds for every part of the message with the attachment added.
\<close>

theorem multipart_invariant:
  "list_all parsedInvariant (allParts (parse reg s))
   \<and> (leafInputs b \<longrightarrow> list_all multipartInvariant (allParts (construct now msgid rnd b)))
   \<and> list_all multipartInvariant (allParts emptyPart)
   \<and> (list_all multipartInvariant (allParts msg) \<and> mt_type (att_type att) \<noteq> ''multipart''
        \<longrightarrow> list_all multipartInvariant (allParts (addAttachment r att msg)))"
proof -
  have e: "list_all multipartInvariant (allParts emptyPart)"
    by (simp add: emptyPart_def multipartInvariant_Part headerMediaType_def findField_def
        defaultMediaType_def)
  show ?thesis
    using e parsed_parts_invariant[of reg s] inv_construct[of b now msgid rnd]
      inv_addAttachment[of msg att r]
    by blast
qed

text \<open>
  The invariant on the message of the book's HTML listing, and on scenario 5 of section
  8: the attachment is added to a flat \<^verbatim>\<open>text/plain\<close> message; the root becomes
  \<^verbatim>\<open>multipart/mixed\<close> and keeps the \<^verbatim>\<open>Subject\<close> field, the original body becomes the first
  child with its \<^verbatim>\<open>Content-Type\<close>, and the attachment is the second child. On parsing:
  the unterminated multipart message has a multipart-shaped body, the message of scenario
  6 a leaf body.
\<close>

theorem multipart_invariant_witness:
  "leafInputs (listingBuilder ''img1@vmime.org'')
   \<and> list_all multipartInvariant
        (allParts (construct docNow ''<m1@vmime.org>'' docRandom (listingBuilder ''img1@vmime.org'')))
   \<and> list_all multipartInvariant (allParts (parse exampleRegistry textMessage))
   \<and> mt_type (att_type jpegAttachment) \<noteq> ''multipart''
   \<and> list_all multipartInvariant
        (allParts (addAttachment ''b'' jpegAttachment (parse exampleRegistry textMessage)))
   \<and> addAttachment ''b'' jpegAttachment (parse exampleRegistry textMessage)
      = Part [(''Subject'', Raw ''Hello from VMime!''),
              (''Content-Type'', MediaType (multipartMediaType ''b'' ''mixed''))]
          (Multipart []
             [Part [(''Content-Type'',
                     MediaType \<lparr>mt_type = ''text'', mt_subtype = ''plain'', mt_params = []\<rparr>)]
                (Leaf \<lparr>ch_octets = ''A simple message to test VMime'', ch_encoding = None\<rparr>),
              attachmentPart jpegAttachment]
             [])
   \<and> list_all parsedInvariant (allParts (parse exampleRegistry anomalousMessage))
   \<and> is_multipart (part_body (parse exampleRegistry anomalousMessage))
   \<and> list_all parsedInvariant (allParts (parse exampleRegistry (mixedHeader @ ''hello'')))
   \<and> is_leaf (part_body (parse exampleRegistry (mixedHeader @ ''hello'')))"
proof -
  let ?b = "listingBuilder ''img1@vmime.org''"
  let ?msg = "parse exampleRegistry textMessage"
  note A = multipart_invariant[where reg = exampleRegistry and s = anomalousMessage and b = ?b
      and now = docNow and msgid = "''<m1@vmime.org>''" and rnd = docRandom
      and msg = ?msg and att = jpegAttachment and r = "''b''"]
  note B = multipart_invariant[where reg = exampleRegistry and s = "mixedHeader @ ''hello''"]
  have l: "leafInputs ?b" by code_simp
  have m: "list_all multipartInvariant (allParts ?msg)" by code_simp
  have a: "mt_type (att_type jpegAttachment) \<noteq> ''multipart''" by code_simp
  have r: "addAttachment ''b'' jpegAttachment ?msg
      = Part [(''Subject'', Raw ''Hello from VMime!''),
              (''Content-Type'', MediaType (multipartMediaType ''b'' ''mixed''))]
          (Multipart []
             [Part [(''Content-Type'',
                     MediaType \<lparr>mt_type = ''text'', mt_subtype = ''plain'', mt_params = []\<rparr>)]
                (Leaf \<lparr>ch_octets = ''A simple message to test VMime'', ch_encoding = None\<rparr>),
              attachmentPart jpegAttachment]
             [])"
    by code_simp
  have pa: "is_multipart (part_body (parse exampleRegistry anomalousMessage))" by code_simp
  have pb: "is_leaf (part_body (parse exampleRegistry (mixedHeader @ ''hello'')))" by code_simp
  from A B l m a r pa pb show ?thesis by blast
qed

text \<open>
  The invariant as the specification states it fails on parsing and on mutation. The
  parse of the message of scenario 6 has the effective top-level type \<^verbatim>\<open>multipart\<close>, no
  boundary parameter, and the leaf body that \<open>BoundaryMissing\<close> prescribes. And header
  mutation alone breaks it: a newly created part satisfies it, the part no longer does
  once a \<^verbatim>\<open>Content-Type\<close> field of type \<^verbatim>\<open>multipart\<close> is appended, as its body is still a
  leaf, and setting the contents, as in the book's listing, leaves it broken.
\<close>

theorem multipart_invariant_counterexample:
  "\<not> multipartInvariant (parse exampleRegistry (mixedHeader @ ''hello''))
   \<and> mt_type (effective_media_type (parse exampleRegistry (mixedHeader @ ''hello'')))
      = ''multipart''
   \<and> part_body (parse exampleRegistry (mixedHeader @ ''hello''))
      = Leaf \<lparr>ch_octets = ''hello'', ch_encoding = None\<rparr>
   \<and> multipartInvariant emptyPart
   \<and> \<not> multipartInvariant (appendField multipartField emptyPart)
   \<and> \<not> multipartInvariant
        (setContents \<lparr>ch_octets = ''This is the text of your message...'', ch_encoding = None\<rparr>
           (appendField multipartField emptyPart))"
  by code_simp

end
